theory Spec2Isabelle
  imports Complex_Main
begin

section \<open>AIX: tensor values, the autograd graph and the Metal command batching\<close>

text \<open>
  The development follows \<^verbatim>\<open>Targets/AIXLib/aix.hpp\<close> (classes \<^verbatim>\<open>Device\<close>,
  \<^verbatim>\<open>TensorValue\<close>, \<^verbatim>\<open>TensorNode\<close>, \<^verbatim>\<open>Tensor\<close>) and
  \<^verbatim>\<open>Targets/AIXLib/aixDeviceMetal.cpp\<close> (class \<^verbatim>\<open>DeviceMetal\<close>).

  Modelling conventions.
  \<^item> Elements are real numbers; the rounding of \<^verbatim>\<open>float\<close> and \<^verbatim>\<open>double\<close> is not
    modelled, the data type is kept as a tag. A buffer cell that was allocated and never
    written holds \<open>None\<close> (an indeterminate value); arithmetic on an indeterminate value is
    indeterminate.
  \<^item> A buffer is the list of its cells. Every constructor of \<^verbatim>\<open>TensorValue\<close> allocates
    exactly \<^verbatim>\<open>m_size\<close> cells. A read outside a buffer (undefined behaviour in the source)
    yields the indeterminate value.
  \<^item> The element count of a shape is computed as the source does, by \<^verbatim>\<open>std::accumulate\<close>
    with the \<^verbatim>\<open>int\<close> literal \<^verbatim>\<open>1\<close> as initial value, so that the accumulator is a 32-bit
    \<^verbatim>\<open>int\<close>. The running product of \<^verbatim>\<open>computeStrides\<close> is a \<^verbatim>\<open>size_t\<close> and wraps at
    \<open>2^64\<close>. The arithmetic on indices (\<^verbatim>\<open>flattenIndex\<close>, \<^verbatim>\<open>unflattenIndex\<close>,
    \<^verbatim>\<open>translationIndex\<close>) is done on natural numbers.
  \<^item> A thrown exception is a value of type \<open>error\<close>; a dereferenced null pointer is reported
    as \<open>NullPointerDereference\<close>.
\<close>

subsection \<open>Data types, shapes and strides\<close>

datatype DataType = kFloat64 | kFloat32

datatype error =
    InvalidArgument          \<comment> \<open>\<^verbatim>\<open>std::invalid_argument\<close>\<close>
  | RuntimeError             \<comment> \<open>\<^verbatim>\<open>std::runtime_error\<close>\<close>
  | NullPointerDereference   \<comment> \<open>a null \<^verbatim>\<open>shared_ptr\<close> or raw pointer is dereferenced\<close>
  | AssertionFailed          \<comment> \<open>an \<^verbatim>\<open>assert\<close> does not hold\<close>
  | MalformedGraph           \<comment> \<open>a parent reference that no constructor can produce\<close>

fun promoteDataType :: "DataType \<Rightarrow> DataType \<Rightarrow> DataType" where
  "promoteDataType kFloat64 kFloat64 = kFloat64"
| "promoteDataType kFloat64 kFloat32 = kFloat64"
| "promoteDataType kFloat32 kFloat64 = kFloat64"
| "promoteDataType kFloat32 kFloat32 = kFloat32"

type_synonym Index = "nat list"
type_synonym Shape = "nat list"
type_synonym Stride = "nat list"
type_synonym Device = nat
type_synonym elem = "real option"

text \<open>The conversions between \<^verbatim>\<open>size_t\<close> (64 bits, unsigned) and \<^verbatim>\<open>int\<close> (32 bits, signed).\<close>

definition int_of_size_t :: "nat \<Rightarrow> int" where
  "int_of_size_t n = (let r = int (n mod 2 ^ 32) in if r < 2 ^ 31 then r else r - 2 ^ 32)"

definition size_t_of_int :: "int \<Rightarrow> nat" where
  "size_t_of_int i = nat (i mod 2 ^ 64)"

definition size_t_mul :: "nat \<Rightarrow> nat \<Rightarrow> nat" where
  "size_t_mul a b = (a * b) mod 2 ^ 64"

text \<open>
  \<^verbatim>\<open>std::accumulate(shape.begin(), shape.end(), 1, std::multiplies<>())\<close>: the accumulator has
  the type of the initial value, \<^verbatim>\<open>int\<close>; each step multiplies in \<^verbatim>\<open>size_t\<close> and stores the
  product back into the \<^verbatim>\<open>int\<close>.
\<close>

fun accumulate_multiplies :: "nat list \<Rightarrow> int \<Rightarrow> int" where
  "accumulate_multiplies [] init = init"
| "accumulate_multiplies (d # ds) init =
     accumulate_multiplies ds (int_of_size_t (size_t_mul (size_t_of_int init) d))"

definition shape_count :: "Shape \<Rightarrow> nat" where
  "shape_count shape = size_t_of_int (accumulate_multiplies shape 1)"

text \<open>
  \<^verbatim>\<open>TensorValue::computeStrides\<close>: the loop runs from the last dimension to the first and
  carries the running product \<^verbatim>\<open>stride\<close>, a \<^verbatim>\<open>size_t\<close>. The pair is (running product,
  strides so far).
\<close>

fun computeStrides_loop :: "Shape \<Rightarrow> nat \<times> Stride" where
  "computeStrides_loop [] = (1, [])"
| "computeStrides_loop (d # ds) =
     (let (stride, strides) = computeStrides_loop ds in (size_t_mul stride d, stride # strides))"

definition computeStrides :: "Shape \<Rightarrow> Stride" where
  "computeStrides shape = snd (computeStrides_loop shape)"

subsection \<open>Tensor values\<close>

record TensorValue =
  m_dType :: DataType
  m_data :: "elem list"
  m_size :: nat
  m_shape :: Shape
  m_strides :: Stride
  m_device :: Device

definition rd :: "elem list \<Rightarrow> nat \<Rightarrow> elem" where
  "rd buf i = (if i < length buf then buf ! i else None)"

text \<open>
  \<^verbatim>\<open>Device::copy\<close> of \<open>sz\<close> cells into a fresh allocation (the conversion between the two
  floating-point types is the identity on the modelled reals).
\<close>

definition copy_cells :: "elem list \<Rightarrow> nat \<Rightarrow> elem list" where
  "copy_cells src sz = map (rd src) [0..<sz]"

text \<open>\<^verbatim>\<open>TensorValue(const void* data, size_t size, DataType srcDType, Shape shape, Device*, DataType)\<close>\<close>

definition TensorValue_data ::
  "elem list \<Rightarrow> nat \<Rightarrow> DataType \<Rightarrow> Shape \<Rightarrow> Device \<Rightarrow> DataType \<Rightarrow> TensorValue" where
  "TensorValue_data data sz srcDType shape device dType =
     \<lparr>m_dType = dType, m_data = copy_cells data sz, m_size = sz, m_shape = shape,
      m_strides = computeStrides shape, m_device = device\<rparr>"

text \<open>\<^verbatim>\<open>TensorValue(float value, Shape shape, Device*, DataType)\<close>\<close>

definition TensorValue_fill :: "real \<Rightarrow> Shape \<Rightarrow> Device \<Rightarrow> DataType \<Rightarrow> TensorValue" where
  "TensorValue_fill v shape device dType =
     \<lparr>m_dType = dType, m_data = replicate (shape_count shape) (Some v),
      m_size = shape_count shape, m_shape = shape, m_strides = computeStrides shape,
      m_device = device\<rparr>"

text \<open>\<^verbatim>\<open>TensorValue(Shape shape, Device*, DataType)\<close>: allocates, writes nothing.\<close>

definition TensorValue_shape :: "Shape \<Rightarrow> Device \<Rightarrow> DataType \<Rightarrow> TensorValue" where
  "TensorValue_shape shape device dType =
     \<lparr>m_dType = dType, m_data = replicate (shape_count shape) None,
      m_size = shape_count shape, m_shape = shape, m_strides = computeStrides shape,
      m_device = device\<rparr>"

text \<open>\<^verbatim>\<open>TensorValue(Shape shape, Device*, size_t size, Stride strides, DataType)\<close>: allocates, writes nothing.\<close>

definition TensorValue_strided ::
  "Shape \<Rightarrow> Device \<Rightarrow> nat \<Rightarrow> Stride \<Rightarrow> DataType \<Rightarrow> TensorValue" where
  "TensorValue_strided shape device sz strides dType =
     \<lparr>m_dType = dType, m_data = replicate sz None, m_size = sz, m_shape = shape,
      m_strides = strides, m_device = device\<rparr>"

text \<open>\<^verbatim>\<open>TensorValue::reshape\<close>\<close>

definition reshape :: "TensorValue \<Rightarrow> Shape \<Rightarrow> error + TensorValue" where
  "reshape t newShape =
     (let newSize = shape_count newShape in
      if m_size t \<noteq> newSize then Inl InvalidArgument
      else Inr (TensorValue_data (m_data t) (m_size t) (m_dType t) newShape (m_device t) (m_dType t)))"

text \<open>\<^verbatim>\<open>TensorValue::to\<close>\<close>

definition to :: "TensorValue \<Rightarrow> DataType \<Rightarrow> TensorValue" where
  "to t newDataType =
     (if m_dType t \<noteq> newDataType
      then TensorValue_data (m_data t) (m_size t) (m_dType t) (m_shape t) (m_device t) newDataType
      else t)"

text \<open>\<^verbatim>\<open>TensorValue::fill\<close>\<close>

definition fill :: "TensorValue \<Rightarrow> real \<Rightarrow> TensorValue" where
  "fill t v = t\<lparr>m_data := replicate (m_size t) (Some v)\<rparr>"

subsection \<open>Broadcasting of shapes\<close>

text \<open>
  \<^verbatim>\<open>TensorValue::broadcastShapes\<close>: both shapes are walked from their last dimension with
  reverse iterators; an exhausted shape contributes dimension 1. The loop function works on
  the reversed shapes and returns the result in the order of the \<^verbatim>\<open>push_back\<close> calls.
\<close>

fun broadcastShapes_loop :: "nat list \<Rightarrow> nat list \<Rightarrow> error + nat list" where
  "broadcastShapes_loop [] [] = Inr []"
| "broadcastShapes_loop (dim1 # it1) [] =
     (case broadcastShapes_loop it1 [] of Inl e \<Rightarrow> Inl e | Inr r \<Rightarrow> Inr (max dim1 1 # r))"
| "broadcastShapes_loop [] (dim2 # it2) =
     (case broadcastShapes_loop [] it2 of Inl e \<Rightarrow> Inl e | Inr r \<Rightarrow> Inr (max 1 dim2 # r))"
| "broadcastShapes_loop (dim1 # it1) (dim2 # it2) =
     (if dim1 \<noteq> dim2 \<and> dim1 \<noteq> 1 \<and> dim2 \<noteq> 1 then Inl InvalidArgument
      else case broadcastShapes_loop it1 it2 of
             Inl e \<Rightarrow> Inl e
           | Inr r \<Rightarrow> Inr (max dim1 dim2 # r))"

definition broadcastShapes :: "Shape \<Rightarrow> Shape \<Rightarrow> error + Shape" where
  "broadcastShapes shape1 shape2 =
     (case broadcastShapes_loop (rev shape1) (rev shape2) of
        Inl e \<Rightarrow> Inl e
      | Inr resultShape \<Rightarrow> Inr (rev resultShape))"

text \<open>\<^verbatim>\<open>TensorValue::checkBroadcastTo\<close>, the loop again on the reversed shapes.\<close>

fun checkBroadcastTo_loop :: "nat list \<Rightarrow> nat list \<Rightarrow> bool" where
  "checkBroadcastTo_loop itSrc [] = True"
| "checkBroadcastTo_loop [] (dimTgt # itTgt) =
     (if 1 \<noteq> dimTgt \<and> (1::nat) \<noteq> 1 then False else checkBroadcastTo_loop [] itTgt)"
| "checkBroadcastTo_loop (dimSrc # itSrc) (dimTgt # itTgt) =
     (if dimSrc \<noteq> dimTgt \<and> dimSrc \<noteq> 1 then False else checkBroadcastTo_loop itSrc itTgt)"

definition checkBroadcastTo :: "Shape \<Rightarrow> Shape \<Rightarrow> bool" where
  "checkBroadcastTo sourceShape targetShape =
     (if length sourceShape > length targetShape then False
      else checkBroadcastTo_loop (rev sourceShape) (rev targetShape))"

text \<open>
  \<^verbatim>\<open>Device::translationIndex\<close>. The loop runs \<open>i\<close> over \<^verbatim>\<open>newShape\<close> and \<open>j\<close> over
  \<^verbatim>\<open>shape\<close>, both from the last dimension; \<open>j\<close> only moves when the dimension of
  \<^verbatim>\<open>shape\<close> is consumed. The state is (\<^verbatim>\<open>originalIndex\<close>, \<^verbatim>\<open>targetStride\<close>,
  \<^verbatim>\<open>originalStride\<close>); the two list arguments are the dimensions still to visit, last first.
\<close>

fun translationIndex_loop :: "nat \<Rightarrow> nat list \<Rightarrow> nat list \<Rightarrow> nat \<Rightarrow> nat \<Rightarrow> nat \<Rightarrow> nat" where
  "translationIndex_loop index [] sh originalIndex targetStride originalStride = originalIndex"
| "translationIndex_loop index (n # ns) [] originalIndex targetStride originalStride =
     translationIndex_loop index ns [] originalIndex (targetStride * n) originalStride"
| "translationIndex_loop index (n # ns) (s # ss) originalIndex targetStride originalStride =
     (let dimIndex = (index div targetStride) mod n in
      if s = n then
        translationIndex_loop index ns ss (originalIndex + dimIndex * originalStride)
          (targetStride * n) (originalStride * s)
      else if s = 1 then
        translationIndex_loop index ns ss originalIndex (targetStride * n) (originalStride * s)
      else
        translationIndex_loop index ns (s # ss) originalIndex (targetStride * n) originalStride)"

definition translationIndex :: "nat \<Rightarrow> Shape \<Rightarrow> Shape \<Rightarrow> nat" where
  "translationIndex index shape newShape =
     translationIndex_loop index (rev newShape) (rev shape) 0 1 1"

text \<open>\<^verbatim>\<open>Device::broadcastToGeneric\<close>: every cell of the destination is written.\<close>

definition broadcastToGeneric :: "elem list \<Rightarrow> nat \<Rightarrow> Shape \<Rightarrow> Shape \<Rightarrow> elem list" where
  "broadcastToGeneric src sz shape newShape =
     map (\<lambda>index. rd src (translationIndex index shape newShape)) [0..<sz]"

text \<open>\<^verbatim>\<open>TensorValue::broadcastTo\<close>\<close>

definition broadcastTo :: "TensorValue \<Rightarrow> Shape \<Rightarrow> error + TensorValue" where
  "broadcastTo t newShape =
     (if \<not> checkBroadcastTo (m_shape t) newShape then Inl InvalidArgument
      else case broadcastShapes (m_shape t) newShape of
             Inl e \<Rightarrow> Inl e
           | Inr resultShape \<Rightarrow>
               let result = TensorValue_shape resultShape (m_device t) (m_dType t) in
               Inr (result\<lparr>m_data :=
                      broadcastToGeneric (m_data t) (m_size result) (m_shape t) resultShape\<rparr>))"

text \<open>
  \<^verbatim>\<open>Device::reduceToGeneric\<close>: the cells of the source are added into the destination,
  which the caller has filled with zeros.
\<close>

fun add_elem :: "elem \<Rightarrow> elem \<Rightarrow> elem" where
  "add_elem (Some a) (Some b) = Some (a + b)"
| "add_elem _ _ = None"

fun mul_elem :: "elem \<Rightarrow> elem \<Rightarrow> elem" where
  "mul_elem (Some a) (Some b) = Some (a * b)"
| "mul_elem _ _ = None"

fun neg_elem :: "elem \<Rightarrow> elem" where
  "neg_elem (Some a) = Some (- a)"
| "neg_elem None = None"

definition reduceToGeneric :: "elem list \<Rightarrow> elem list \<Rightarrow> nat \<Rightarrow> Shape \<Rightarrow> Shape \<Rightarrow> elem list" where
  "reduceToGeneric src dst sz shape newShape =
     fold (\<lambda>index tDst.
             tDst[translationIndex index shape newShape :=
                    add_elem (rd tDst (translationIndex index shape newShape)) (rd src index)])
          [0..<sz] dst"

text \<open>\<^verbatim>\<open>TensorValue::reduceTo\<close>\<close>

definition reduceTo :: "TensorValue \<Rightarrow> Shape \<Rightarrow> TensorValue" where
  "reduceTo t originalShape =
     (let result = TensorValue_fill 0 originalShape (m_device t) (m_dType t) in
      result\<lparr>m_data :=
        reduceToGeneric (m_data t) (m_data result) (m_size t) (m_shape t) originalShape\<rparr>)"

subsection \<open>Element-wise kernels and operators\<close>

text \<open>
  \<^verbatim>\<open>Device::addGeneric\<close>, \<^verbatim>\<open>mulGeneric\<close>, \<^verbatim>\<open>unaryGeneric\<close>: \<^verbatim>\<open>res[i]\<close> is written for every
  \<open>i < sz\<close>.
\<close>

definition addGeneric :: "elem list \<Rightarrow> elem list \<Rightarrow> nat \<Rightarrow> elem list" where
  "addGeneric a1 a2 sz = map (\<lambda>i. add_elem (rd a1 i) (rd a2 i)) [0..<sz]"

definition mulGeneric :: "elem list \<Rightarrow> elem list \<Rightarrow> nat \<Rightarrow> elem list" where
  "mulGeneric a1 a2 sz = map (\<lambda>i. mul_elem (rd a1 i) (rd a2 i)) [0..<sz]"

definition unaryGeneric :: "elem list \<Rightarrow> nat \<Rightarrow> elem list" where
  "unaryGeneric a1 sz = map (\<lambda>i. neg_elem (rd a1 i)) [0..<sz]"

text \<open>
  \<^verbatim>\<open>TensorValue::prepareTensors\<close>: promotes the data types, broadcasts both sides and
  allocates the result. The two operands are passed by reference and are returned updated.
\<close>

definition prepareTensors ::
  "TensorValue \<Rightarrow> TensorValue \<Rightarrow> error + (TensorValue \<times> TensorValue \<times> TensorValue)" where
  "prepareTensors lhs rhs =
     (let promotedDType =
            (if m_dType lhs \<noteq> m_dType rhs then promoteDataType (m_dType lhs) (m_dType rhs)
             else m_dType lhs);
          lhs1 = (if m_dType lhs \<noteq> m_dType rhs then to lhs promotedDType else lhs);
          rhs1 = (if m_dType lhs \<noteq> m_dType rhs then to rhs promotedDType else rhs)
      in
      if m_shape lhs1 \<noteq> m_shape rhs1 then
        (case broadcastShapes (m_shape lhs1) (m_shape rhs1) of
           Inl e \<Rightarrow> Inl e
         | Inr bcShape \<Rightarrow>
             (case broadcastTo lhs1 bcShape of
                Inl e \<Rightarrow> Inl e
              | Inr lhs2 \<Rightarrow>
                  (case broadcastTo rhs1 bcShape of
                     Inl e \<Rightarrow> Inl e
                   | Inr rhs2 \<Rightarrow>
                       Inr (lhs2, rhs2,
                            TensorValue_shape (m_shape lhs2) (m_device lhs2) promotedDType))))
      else Inr (lhs1, rhs1, TensorValue_shape (m_shape lhs1) (m_device lhs1) promotedDType))"

text \<open>\<^verbatim>\<open>TensorValue::operator+\<close> and \<^verbatim>\<open>TensorValue::operator*\<close> on two tensor values.\<close>

definition add :: "TensorValue \<Rightarrow> TensorValue \<Rightarrow> error + TensorValue" where
  "add t other =
     (if m_shape t \<noteq> m_shape other \<or> m_dType t \<noteq> m_dType other then
        (case prepareTensors t other of
           Inl e \<Rightarrow> Inl e
         | Inr (lhs, rhs, result) \<Rightarrow>
             Inr (result\<lparr>m_data := addGeneric (m_data lhs) (m_data rhs) (m_size lhs)\<rparr>))
      else
        Inr ((TensorValue_shape (m_shape t) (m_device t) (m_dType t))
               \<lparr>m_data := addGeneric (m_data t) (m_data other) (m_size t)\<rparr>))"

definition mul :: "TensorValue \<Rightarrow> TensorValue \<Rightarrow> error + TensorValue" where
  "mul t other =
     (if m_shape t \<noteq> m_shape other \<or> m_dType t \<noteq> m_dType other then
        (case prepareTensors t other of
           Inl e \<Rightarrow> Inl e
         | Inr (lhs, rhs, result) \<Rightarrow>
             Inr (result\<lparr>m_data := mulGeneric (m_data lhs) (m_data rhs) (m_size lhs)\<rparr>))
      else
        Inr ((TensorValue_shape (m_shape t) (m_device t) (m_dType t))
               \<lparr>m_data := mulGeneric (m_data t) (m_data other) (m_size t)\<rparr>))"

text \<open>
  \<^verbatim>\<open>TensorValue::operator+=\<close>. In the broadcasting branch the sum is computed in place in
  the local copy \<^verbatim>\<open>lhs\<close> and the tensor is replaced by a copy of it, converted back to the
  data type the tensor had.
\<close>

definition iadd :: "TensorValue \<Rightarrow> TensorValue \<Rightarrow> error + TensorValue" where
  "iadd t other =
     (if m_shape t \<noteq> m_shape other \<or> m_dType t \<noteq> m_dType other then
        (case prepareTensors t other of
           Inl e \<Rightarrow> Inl e
         | Inr (lhs, rhs, result) \<Rightarrow>
             Inr (TensorValue_data (addGeneric (m_data lhs) (m_data rhs) (m_size lhs))
                    (m_size lhs) (m_dType lhs) (m_shape lhs) (m_device lhs) (m_dType t)))
      else Inr (t\<lparr>m_data := addGeneric (m_data t) (m_data other) (m_size t)\<rparr>))"

text \<open>\<^verbatim>\<open>TensorValue::operator-() const\<close>\<close>

definition neg :: "TensorValue \<Rightarrow> TensorValue" where
  "neg t = (TensorValue_shape (m_shape t) (m_device t) (m_dType t))
             \<lparr>m_data := unaryGeneric (m_data t) (m_size t)\<rparr>"

subsection \<open>Transpose\<close>

text \<open>\<^verbatim>\<open>Device::flattenIndex\<close> and \<^verbatim>\<open>Device::unflattenIndex\<close>; both loops run over the strides.\<close>

fun flattenIndex :: "nat list \<Rightarrow> Stride \<Rightarrow> nat" where
  "flattenIndex (i # indices) (s # strides) = i * s + flattenIndex indices strides"
| "flattenIndex _ _ = 0"

fun unflattenIndex :: "nat \<Rightarrow> Stride \<Rightarrow> nat list" where
  "unflattenIndex index [] = []"
| "unflattenIndex index (s # strides) = (index div s) # unflattenIndex (index mod s) strides"

text \<open>\<^verbatim>\<open>std::swap(v[dim0], v[dim1])\<close>\<close>

definition swap :: "nat list \<Rightarrow> nat \<Rightarrow> nat \<Rightarrow> nat list" where
  "swap v dim0 dim1 = v[dim0 := v ! dim1, dim1 := v ! dim0]"

text \<open>\<^verbatim>\<open>Device::transposeGeneric\<close>: cell \<open>i\<close> of the source is stored at its new flat index.\<close>

definition transposeGeneric ::
  "nat \<Rightarrow> nat \<Rightarrow> elem list \<Rightarrow> Stride \<Rightarrow> Stride \<Rightarrow> nat \<Rightarrow> elem list \<Rightarrow> elem list" where
  "transposeGeneric dim0 dim1 data strides newStrides sz res =
     fold (\<lambda>i r. r[flattenIndex (swap (unflattenIndex i strides) dim0 dim1) newStrides := rd data i])
          [0..<sz] res"

text \<open>\<^verbatim>\<open>TensorValue::transpose\<close> (named \<open>transpose_tv\<close> here)\<close>

definition transpose_tv :: "TensorValue \<Rightarrow> nat \<Rightarrow> nat \<Rightarrow> error + TensorValue" where
  "transpose_tv t dim0 dim1 =
     (if dim0 \<ge> length (m_shape t) \<or> dim1 \<ge> length (m_shape t) then Inl InvalidArgument
      else
        let newShape = swap (m_shape t) dim0 dim1;
            result = TensorValue_shape newShape (m_device t) (m_dType t)
        in Inr (result\<lparr>m_data :=
                  transposeGeneric dim0 dim1 (m_data t) (m_strides t) (m_strides result)
                    (m_size result) (m_data result)\<rparr>))"

subsection \<open>The autograd graph\<close>

text \<open>
  The nodes of the graph live in a store, a list of nodes; the address of a node is its
  position. \<^verbatim>\<open>std::make_shared<TensorNode>\<close> appends a node, so the parents of a node,
  which exist when the node is made, have smaller addresses. A \<^verbatim>\<open>Tensor\<close> is the address
  of its node; the references \<^verbatim>\<open>m_a\<close> and \<^verbatim>\<open>m_b\<close> are optional addresses (\<open>None\<close> is the
  null pointer). The field \<^verbatim>\<open>m_backwardFunc\<close> holds the name of one of the static backward
  functions of \<^verbatim>\<open>Tensor\<close>.
\<close>

datatype BackwardFunc =
    defaultBackward
  | broadcastBackwardFunc
  | toBackwardFunc
  | addBackwardFunc
  | mulBackwardFunc
  | unaryBackwardFunc
  | transposeBackwardFunc

record TensorNode =
  m_value :: TensorValue
  m_grad :: TensorValue
  m_requireGrad :: bool
  m_retainGrad :: bool
  m_a :: "nat option"
  m_b :: "nat option"
  m_dim0 :: nat
  m_dim1 :: nat
  m_backwardFunc :: BackwardFunc

type_synonym Tensor = nat
type_synonym store = "TensorNode list"

text \<open>
  \<^verbatim>\<open>TensorNode(const TensorValue& value, bool requireGrad)\<close> and
  \<^verbatim>\<open>TensorNode(const Shape& shape, Device*, bool requireGrad, DataType)\<close>. The gradient is
  allocated with the shape, size, strides and data type of the value and is not written.
  The backward function is the one every constructor of \<^verbatim>\<open>Tensor\<close> stores right after.
\<close>

definition TensorNode_value :: "TensorValue \<Rightarrow> bool \<Rightarrow> TensorNode" where
  "TensorNode_value v requireGrad =
     \<lparr>m_value = v,
      m_grad = TensorValue_strided (m_shape v) (m_device v) (m_size v) (m_strides v) (m_dType v),
      m_requireGrad = requireGrad, m_retainGrad = False, m_a = None, m_b = None,
      m_dim0 = 0, m_dim1 = 0, m_backwardFunc = defaultBackward\<rparr>"

definition TensorNode_shape :: "Shape \<Rightarrow> Device \<Rightarrow> bool \<Rightarrow> DataType \<Rightarrow> TensorNode" where
  "TensorNode_shape shape device requireGrad dType =
     (let v = TensorValue_shape shape device dType in
      \<lparr>m_value = v,
       m_grad = TensorValue_strided shape device (m_size v) (m_strides v) dType,
       m_requireGrad = requireGrad, m_retainGrad = False, m_a = None, m_b = None,
       m_dim0 = 0, m_dim1 = 0, m_backwardFunc = defaultBackward\<rparr>)"

text \<open>The three constructors of \<^verbatim>\<open>Tensor\<close>.\<close>

definition Tensor_data ::
  "store \<Rightarrow> elem list \<Rightarrow> nat \<Rightarrow> DataType \<Rightarrow> Shape \<Rightarrow> bool \<Rightarrow> DataType \<Rightarrow> Device \<Rightarrow> store \<times> Tensor" where
  "Tensor_data h data sz srcDType shape requireGrad dType device =
     (h @ [TensorNode_value (TensorValue_data data sz srcDType shape device dType) requireGrad],
      length h)"

definition Tensor_fill ::
  "store \<Rightarrow> real \<Rightarrow> Shape \<Rightarrow> bool \<Rightarrow> DataType \<Rightarrow> Device \<Rightarrow> store \<times> Tensor" where
  "Tensor_fill h v shape requireGrad dType device =
     (h @ [TensorNode_value (TensorValue_fill v shape device dType) requireGrad], length h)"

definition Tensor_shape ::
  "store \<Rightarrow> Shape \<Rightarrow> bool \<Rightarrow> DataType \<Rightarrow> Device \<Rightarrow> store \<times> Tensor" where
  "Tensor_shape h shape requireGrad dType device =
     (h @ [TensorNode_shape shape device requireGrad dType], length h)"

text \<open>The convenience functions \<^verbatim>\<open>aix::tensor\<close>, \<^verbatim>\<open>aix::ones\<close>, \<^verbatim>\<open>aix::zeros\<close> on the default device 0.\<close>

definition tensor :: "store \<Rightarrow> real list \<Rightarrow> Shape \<Rightarrow> bool \<Rightarrow> DataType \<Rightarrow> store \<times> Tensor" where
  "tensor h data shape requireGrad dtype =
     Tensor_data h (map Some data) (length data) kFloat64 shape requireGrad dtype 0"

definition ones :: "store \<Rightarrow> Shape \<Rightarrow> bool \<Rightarrow> store \<times> Tensor" where
  "ones h shape requireGrad = Tensor_fill h 1 shape requireGrad kFloat32 0"

definition zeros :: "store \<Rightarrow> Shape \<Rightarrow> bool \<Rightarrow> store \<times> Tensor" where
  "zeros h shape requireGrad = Tensor_fill h 0 shape requireGrad kFloat32 0"

text \<open>Accessors of \<^verbatim>\<open>Tensor\<close>.\<close>

definition "value" :: "store \<Rightarrow> Tensor \<Rightarrow> TensorValue" where
  "value h t = m_value (h ! t)"

definition shape :: "store \<Rightarrow> Tensor \<Rightarrow> Shape" where
  "shape h t = m_shape (m_value (h ! t))"

definition dataType :: "store \<Rightarrow> Tensor \<Rightarrow> DataType" where
  "dataType h t = m_dType (m_value (h ! t))"

definition device :: "store \<Rightarrow> Tensor \<Rightarrow> Device" where
  "device h t = m_device (m_value (h ! t))"

definition isRequireGrad :: "store \<Rightarrow> Tensor \<Rightarrow> bool" where
  "isRequireGrad h t = m_requireGrad (h ! t)"

text \<open>\<^verbatim>\<open>Tensor::grad\<close>, \<^verbatim>\<open>Tensor::zeroGrad\<close>, \<^verbatim>\<open>Tensor::retainGrad\<close>\<close>

definition grad :: "store \<Rightarrow> Tensor \<Rightarrow> error + TensorValue" where
  "grad h t =
     (if \<not> m_requireGrad (h ! t) \<and> \<not> m_retainGrad (h ! t) then Inl RuntimeError
      else Inr (m_grad (h ! t)))"

definition zeroGrad :: "store \<Rightarrow> Tensor \<Rightarrow> store" where
  "zeroGrad h t = h[t := (h ! t)\<lparr>m_grad := fill (m_grad (h ! t)) 0\<rparr>]"

definition retainGrad :: "store \<Rightarrow> Tensor \<Rightarrow> store" where
  "retainGrad h t = h[t := (h ! t)\<lparr>m_retainGrad := True, m_grad := fill (m_grad (h ! t)) 0\<rparr>]"

text \<open>\<^verbatim>\<open>Tensor::reshape\<close>, \<^verbatim>\<open>Tensor::broadcastTo\<close>, \<^verbatim>\<open>Tensor::to\<close>, \<^verbatim>\<open>Tensor::broadcastShape\<close>\<close>

definition Tensor_reshape :: "store \<Rightarrow> Tensor \<Rightarrow> Shape \<Rightarrow> error + store \<times> Tensor" where
  "Tensor_reshape h t newShape =
     (let newSize = shape_count newShape in
      if m_size (value h t) \<noteq> newSize then Inl InvalidArgument
      else Inr (Tensor_data h (m_data (value h t)) (m_size (value h t)) (dataType h t) newShape
                  (isRequireGrad h t) (dataType h t) (device h t)))"

definition Tensor_broadcastTo :: "store \<Rightarrow> Tensor \<Rightarrow> Shape \<Rightarrow> error + store \<times> Tensor" where
  "Tensor_broadcastTo h t newShape =
     (case broadcastTo (m_value (h ! t)) newShape of
        Inl e \<Rightarrow> Inl e
      | Inr tValue \<Rightarrow>
          let (h1, result) = Tensor_data h (m_data tValue) (m_size tValue) (m_dType tValue)
                               (m_shape tValue) (isRequireGrad h t) (dataType h t) (device h t)
          in Inr (h1[result := (h1 ! result)\<lparr>m_a := Some t,
                                               m_backwardFunc := broadcastBackwardFunc\<rparr>],
                  result))"

definition Tensor_to :: "store \<Rightarrow> Tensor \<Rightarrow> DataType \<Rightarrow> store \<times> Tensor" where
  "Tensor_to h t newDataType =
     (if dataType h t \<noteq> newDataType then
        let (h1, result) = Tensor_data h (m_data (value h t)) (m_size (value h t))
                             (m_dType (value h t)) (m_shape (value h t)) (isRequireGrad h t)
                             newDataType (device h t)
        in (h1[result := (h1 ! result)\<lparr>m_a := Some t, m_backwardFunc := toBackwardFunc\<rparr>],
            result)
      else (h, t))"

definition broadcastShape :: "store \<Rightarrow> Tensor \<Rightarrow> Shape \<Rightarrow> error + Shape" where
  "broadcastShape h t otherShape =
     (if shape h t = otherShape then Inr (shape h t)
      else broadcastShapes (shape h t) otherShape)"

text \<open>
  \<^verbatim>\<open>Tensor::operator+\<close> and \<^verbatim>\<open>Tensor::operator*\<close>. Both operands are broadcast to the common
  shape and converted to the promoted type, which makes new nodes; the result node is made
  with the shape and the data type of the left operand, then its value is assigned.
\<close>

definition Tensor_binary ::
  "(TensorValue \<Rightarrow> TensorValue \<Rightarrow> error + TensorValue) \<Rightarrow> BackwardFunc \<Rightarrow>
   store \<Rightarrow> Tensor \<Rightarrow> Tensor \<Rightarrow> error + store \<times> Tensor" where
  "Tensor_binary opr bf h t other =
     (let promotedDType = promoteDataType (dataType h t) (dataType h other) in
      case broadcastShape h t (shape h other) of
        Inl e \<Rightarrow> Inl e
      | Inr bcShape \<Rightarrow>
          (case Tensor_broadcastTo h t bcShape of
             Inl e \<Rightarrow> Inl e
           | Inr (h1, lhs0) \<Rightarrow>
               let (h2, lhs) = Tensor_to h1 lhs0 promotedDType in
               (case Tensor_broadcastTo h2 other bcShape of
                  Inl e \<Rightarrow> Inl e
                | Inr (h3, rhs0) \<Rightarrow>
                    let (h4, rhs) = Tensor_to h3 rhs0 promotedDType;
                        (h5, result) = Tensor_shape h4 (shape h4 t)
                                         (isRequireGrad h4 t \<or> isRequireGrad h4 other)
                                         (dataType h4 t) (device h4 t)
                    in (case opr (m_value (h5 ! lhs)) (m_value (h5 ! rhs)) of
                          Inl e \<Rightarrow> Inl e
                        | Inr v \<Rightarrow>
                            Inr (h5[result := (h5 ! result)\<lparr>m_value := v, m_a := Some lhs,
                                                  m_b := Some rhs, m_backwardFunc := bf\<rparr>],
                                 result)))))"

definition Tensor_add :: "store \<Rightarrow> Tensor \<Rightarrow> Tensor \<Rightarrow> error + store \<times> Tensor" where
  "Tensor_add = Tensor_binary add addBackwardFunc"

definition Tensor_mul :: "store \<Rightarrow> Tensor \<Rightarrow> Tensor \<Rightarrow> error + store \<times> Tensor" where
  "Tensor_mul = Tensor_binary mul mulBackwardFunc"

text \<open>\<^verbatim>\<open>Tensor::operator-() const\<close> and \<^verbatim>\<open>Tensor::transpose\<close>\<close>

definition Tensor_neg :: "store \<Rightarrow> Tensor \<Rightarrow> store \<times> Tensor" where
  "Tensor_neg h t =
     (let (h1, result) = Tensor_shape h (shape h t) (isRequireGrad h t) (dataType h t) (device h t)
      in (h1[result := (h1 ! result)\<lparr>m_value := neg (m_value (h1 ! t)), m_a := Some t,
                                          m_backwardFunc := unaryBackwardFunc\<rparr>],
          result))"

definition Tensor_transpose :: "store \<Rightarrow> Tensor \<Rightarrow> nat \<Rightarrow> nat \<Rightarrow> error + store \<times> Tensor" where
  "Tensor_transpose h t dim0 dim1 =
     (let (h1, result) = Tensor_shape h (shape h t) (isRequireGrad h t) (dataType h t) (device h t)
      in case transpose_tv (m_value (h1 ! t)) dim0 dim1 of
           Inl e \<Rightarrow> Inl e
         | Inr v \<Rightarrow>
             Inr (h1[result := (h1 ! result)\<lparr>m_value := v, m_a := Some t, m_dim0 := dim0,
                                   m_dim1 := dim1, m_backwardFunc := transposeBackwardFunc\<rparr>],
                  result))"

subsection \<open>Backward propagation\<close>

text \<open>
  \<^verbatim>\<open>TensorNode::backward\<close> together with the static backward functions of \<^verbatim>\<open>Tensor\<close> it
  calls through \<^verbatim>\<open>m_backwardFunc\<close>. The result is the exception thrown, if any, and the
  store as the call leaves it. The recursion follows the parent references; a reference
  that does not point to an older node is reported as \<open>MalformedGraph\<close>.
\<close>

function backward :: "store \<Rightarrow> nat \<Rightarrow> TensorValue \<Rightarrow> error option \<times> store" where
  "backward h p seed =
     (if length h \<le> p then (Some NullPointerDereference, h)
      else
        case (if m_retainGrad (h ! p) then iadd (m_grad (h ! p)) seed else Inr (m_grad (h ! p))) of
          Inl e \<Rightarrow> (Some e, h)
        | Inr g \<Rightarrow>
            let h1 = h[p := (h ! p)\<lparr>m_grad := g\<rparr>]; node = h1 ! p in
            (case m_backwardFunc node of
               defaultBackward \<Rightarrow>
                 if m_requireGrad node \<and> \<not> m_retainGrad node then
                   if m_dType (m_grad node) \<noteq> m_dType seed then (Some AssertionFailed, h1)
                   else (case iadd (m_grad node) seed of
                           Inl e \<Rightarrow> (Some e, h1)
                         | Inr g' \<Rightarrow> (None, h1[p := node\<lparr>m_grad := g'\<rparr>]))
                 else (None, h1)
             | broadcastBackwardFunc \<Rightarrow>
                 (case m_a node of
                    None \<Rightarrow> (None, h1)
                  | Some a \<Rightarrow>
                      if a < p then backward h1 a (reduceTo seed (m_shape (m_value (h1 ! a))))
                      else (Some MalformedGraph, h1))
             | toBackwardFunc \<Rightarrow>
                 (case m_a node of
                    None \<Rightarrow> (None, h1)
                  | Some a \<Rightarrow>
                      if a < p then backward h1 a (to seed (m_dType (m_value (h1 ! a))))
                      else (Some MalformedGraph, h1))
             | addBackwardFunc \<Rightarrow>
                 (case m_a node of
                    None \<Rightarrow> (None, h1)
                  | Some a \<Rightarrow>
                      (case m_b node of
                         None \<Rightarrow> (None, h1)
                       | Some b \<Rightarrow>
                           if a < p \<and> b < p then
                             (case backward h1 a seed of
                                (Some e, h2) \<Rightarrow> (Some e, h2)
                              | (None, h2) \<Rightarrow> backward h2 b seed)
                           else (Some MalformedGraph, h1)))
             | mulBackwardFunc \<Rightarrow>
                 (case m_a node of
                    None \<Rightarrow> (None, h1)
                  | Some a \<Rightarrow>
                      (case m_b node of
                         None \<Rightarrow> (None, h1)
                       | Some b \<Rightarrow>
                           if a < p \<and> b < p then
                             (case mul (m_value (h1 ! b)) seed of
                                Inl e \<Rightarrow> (Some e, h1)
                              | Inr seedA \<Rightarrow>
                                  (case backward h1 a seedA of
                                     (Some e, h2) \<Rightarrow> (Some e, h2)
                                   | (None, h2) \<Rightarrow>
                                       (case mul (m_value (h2 ! a)) seed of
                                          Inl e \<Rightarrow> (Some e, h2)
                                        | Inr seedB \<Rightarrow> backward h2 b seedB)))
                           else (Some MalformedGraph, h1)))
             | unaryBackwardFunc \<Rightarrow>
                 (case m_a node of
                    None \<Rightarrow> (None, h1)
                  | Some a \<Rightarrow>
                      if a < p then backward h1 a (neg seed) else (Some MalformedGraph, h1))
             | transposeBackwardFunc \<Rightarrow>
                 (case m_a node of
                    None \<Rightarrow> (None, h1)
                  | Some a \<Rightarrow>
                      if a < p then
                        (case transpose_tv seed (m_dim0 node) (m_dim1 node) of
                           Inl e \<Rightarrow> (Some e, h1)
                         | Inr seedA \<Rightarrow> backward h1 a seedA)
                      else (Some MalformedGraph, h1))))"
  by pat_completeness auto
termination
  by (relation "measure (\<lambda>(h, p, seed). p)") auto

declare backward.simps [simp del]

text \<open>\<^verbatim>\<open>Tensor::backward(float value = 1)\<close> and \<^verbatim>\<open>Tensor::backward(float value, const Shape& gradShape)\<close>\<close>

definition Tensor_backward :: "store \<Rightarrow> Tensor \<Rightarrow> real \<Rightarrow> error option \<times> store" where
  "Tensor_backward h t v =
     (case m_a (h ! t) of
        None \<Rightarrow> (Some NullPointerDereference, h)
      | Some a \<Rightarrow>
          backward h t (TensorValue_fill v (m_shape (m_grad (h ! a))) (device h t) (dataType h t)))"

definition Tensor_backward_shape :: "store \<Rightarrow> Tensor \<Rightarrow> real \<Rightarrow> Shape \<Rightarrow> error option \<times> store" where
  "Tensor_backward_shape h t v gradShape =
     backward h t (TensorValue_fill v gradShape (device h t) (dataType h t))"

subsection \<open>Concrete graphs\<close>

text \<open>
  The graphs used as concrete inputs below. \<open>leaves_xy\<close> holds the leaves
  \<open>x = [1,2,3]\<close> of shape \<open>[1,3]\<close> (address 0) and \<open>y = [[7,8,9],[10,11,12]]\<close> of shape
  \<open>[2,3]\<close> (address 1), both requiring gradients; \<open>leaf_3x2\<close> holds one leaf of shape
  \<open>[3,2]\<close> that requires gradients; \<open>leaves_plain\<close> holds two leaves that do not
  require gradients, the second one of type \<^verbatim>\<open>kFloat64\<close>.
\<close>

definition or_empty :: "error + store \<times> Tensor \<Rightarrow> store \<times> Tensor" where
  "or_empty r = (case r of Inl e \<Rightarrow> ([], 0) | Inr p \<Rightarrow> p)"

definition leaves_xy :: store where
  "leaves_xy = fst (tensor (fst (tensor [] [1, 2, 3] [1, 3] True kFloat32))
                      [7, 8, 9, 10, 11, 12] [2, 3] True kFloat32)"

definition x_times_y :: "store \<times> Tensor" where
  "x_times_y = or_empty (Tensor_mul leaves_xy 0 1)"

definition x_times_y_zeroed :: "store \<times> Tensor" where
  "x_times_y_zeroed = or_empty (Tensor_mul (zeroGrad (zeroGrad leaves_xy 0) 1) 0 1)"

definition x_plus_y :: "store \<times> Tensor" where
  "x_plus_y = or_empty (Tensor_add leaves_xy 0 1)"

definition leaf_3x2 :: store where
  "leaf_3x2 = fst (tensor [] [1, 2, 3, 4, 5, 6] [3, 2] True kFloat32)"

definition transposed_3x2 :: "store \<times> Tensor" where
  "transposed_3x2 = or_empty (Tensor_transpose leaf_3x2 0 0 1)"

definition negated_3x2 :: "store \<times> Tensor" where
  "negated_3x2 = Tensor_neg leaf_3x2 0"

definition reshaped_3x2 :: "store \<times> Tensor" where
  "reshaped_3x2 = or_empty (Tensor_reshape leaf_3x2 0 [4294967302])"

definition leaves_plain :: store where
  "leaves_plain = fst (tensor (fst (tensor [] [1, 2] [2] False kFloat32))
                         [3, 4] [2] False kFloat64)"

definition plain_sum :: "store \<times> Tensor" where
  "plain_sum = or_empty (Tensor_add leaves_plain 0 1)"

subsection \<open>Compatibility of shapes, in the words of the specification\<close>

text \<open>
  The shapes are compared right-aligned: \<open>dim_from_end s i\<close> is the \<open>i\<close>-th dimension of
  \<open>s\<close> counted from the last one, and 1 when \<open>s\<close> has no such dimension.
  \<open>broadcast_compatible\<close> is the symmetric rule (each pair of dimensions is equal or one
  side is 1); \<open>broadcastable_to\<close> is the one-sided rule (the source has no more dimensions
  than the target and each pair is equal or the source side is 1).
\<close>

definition dim_from_end :: "Shape \<Rightarrow> nat \<Rightarrow> nat" where
  "dim_from_end s i = (if i < length s then rev s ! i else 1)"

definition broadcast_compatible :: "Shape \<Rightarrow> Shape \<Rightarrow> bool" where
  "broadcast_compatible s1 s2 \<longleftrightarrow>
     (\<forall>i < max (length s1) (length s2).
        dim_from_end s1 i = dim_from_end s2 i \<or> dim_from_end s1 i = 1 \<or> dim_from_end s2 i = 1)"

definition broadcastable_to :: "Shape \<Rightarrow> Shape \<Rightarrow> bool" where
  "broadcastable_to src tgt \<longleftrightarrow>
     length src \<le> length tgt \<and>
     (\<forall>i < length tgt. dim_from_end src i = dim_from_end tgt i \<or> dim_from_end src i = 1)"

subsection \<open>The invariant of tensor values\<close>

text \<open>
  The data model of the specification: the element count is the product of the shape, the
  strides are the strides \<^verbatim>\<open>computeStrides\<close> gives for the shape, and the buffer holds one
  cell per element.
\<close>

definition well_formed :: "TensorValue \<Rightarrow> bool" where
  "well_formed t \<longleftrightarrow>
     m_size t = prod_list (m_shape t) \<and>
     m_strides t = computeStrides (m_shape t) \<and> length (m_data t) = m_size t"

text \<open>\<open>t.transpose(dim0, dim1).transpose(dim0, dim1)\<close>\<close>

definition transpose_twice :: "TensorValue \<Rightarrow> nat \<Rightarrow> nat \<Rightarrow> error + TensorValue" where
  "transpose_twice t dim0 dim1 =
     (case transpose_tv t dim0 dim1 of
        Inl e \<Rightarrow> Inl e
      | Inr t1 \<Rightarrow> transpose_tv t1 dim0 dim1)"

text \<open>
  A tensor of one dimension with \<open>2^31\<close> elements, all zero, as the constructor
  \<^verbatim>\<open>TensorValue(const void* data, size_t size, DataType, Shape, Device*, DataType)\<close> makes it
  from a buffer of that many zeros.
\<close>

definition zeros_2e31 :: TensorValue where
  "zeros_2e31 =
     \<lparr>m_dType = kFloat32, m_data = replicate 2147483648 (Some 0), m_size = 2147483648,
      m_shape = [2147483648], m_strides = computeStrides [2147483648], m_device = 0\<rparr>"

text \<open>
  The strides of a shape as products of natural numbers, without wrap-around; they are the
  strides \<^verbatim>\<open>computeStrides\<close> gives when the shape has no dimension 0 and its product is
  below \<open>2^64\<close>.
\<close>

fun strides_nat :: "Shape \<Rightarrow> Stride" where
  "strides_nat [] = []"
| "strides_nat (d # ds) = prod_list ds # strides_nat ds"

subsection \<open>The Metal backend: pipeline table and operations\<close>

































































subsection \<open>The Metal backend: batching of command buffers\<close>

text \<open>
  The members of \<^verbatim>\<open>DeviceMetal\<close> that \<^verbatim>\<open>commit\<close>, \<^verbatim>\<open>synchronize\<close> and \<^verbatim>\<open>commitBatchQueue\<close>
  read and write. A command buffer is identified by its number in the order of creation by
  the command queue. Three components describe the Metal runtime: \<open>created\<close>, the number
  of command buffers the queue has created; \<open>encoded\<close>, the number of dispatches encoded in
  the command buffer \<^verbatim>\<open>m_cmdBuffer\<close>; \<open>in_flight\<close>, the command buffers that have been
  committed and have not completed.

  \<^verbatim>\<open>MAX_CMD_BATCH_SIZE\<close> is declared in a header that is not among the sources; it is a
  parameter. The counter does not exceed it by more than the increment that is tested
  against it, so the counter is a natural number here.
\<close>

record DeviceMetal =
  m_currentBatchSize :: nat
  m_maxBatchSize :: nat
  m_cmdBuffer :: nat
  m_committedCmdBuffer :: "nat option"
  created :: nat
  encoded :: nat
  in_flight :: "nat set"

text \<open>\<^verbatim>\<open>MTL::CommandQueue::commandBuffer\<close>, \<^verbatim>\<open>MTL::CommandBuffer::commit\<close>,
  \<^verbatim>\<open>MTL::CommandBuffer::waitUntilCompleted\<close>, \<^verbatim>\<open>MTL::ComputeCommandEncoder::dispatchThreads\<close>\<close>

definition commandBuffer :: "DeviceMetal \<Rightarrow> nat \<times> DeviceMetal" where
  "commandBuffer s = (created s, s\<lparr>created := Suc (created s)\<rparr>)"

definition commandBuffer_commit :: "nat \<Rightarrow> DeviceMetal \<Rightarrow> DeviceMetal" where
  "commandBuffer_commit b s = s\<lparr>in_flight := insert b (in_flight s)\<rparr>"

definition waitUntilCompleted :: "nat \<Rightarrow> DeviceMetal \<Rightarrow> DeviceMetal" where
  "waitUntilCompleted b s = s\<lparr>in_flight := in_flight s - {b}\<rparr>"

definition dispatchThreads :: "DeviceMetal \<Rightarrow> DeviceMetal" where
  "dispatchThreads s = s\<lparr>encoded := Suc (encoded s)\<rparr>"

text \<open>
  The constructor \<^verbatim>\<open>DeviceMetal::DeviceMetal\<close> creates the first command buffer.

  Modelled from the spec: the initial values of \<^verbatim>\<open>m_currentBatchSize\<close>, \<^verbatim>\<open>m_maxBatchSize\<close>
  (zero) and \<^verbatim>\<open>m_committedCmdBuffer\<close> (null), whose initialisers are in the absent header.
\<close>

definition DeviceMetal_new :: DeviceMetal where
  "DeviceMetal_new =
     \<lparr>m_currentBatchSize = 0, m_maxBatchSize = 0, m_cmdBuffer = 0, m_committedCmdBuffer = None,
      created = 1, encoded = 0, in_flight = {}\<rparr>"

text \<open>
  \<^verbatim>\<open>DeviceMetal::commit\<close>. \<open>commit_trace\<close> lists the states the device passes through,
  one after each statement that changes a modelled component, in the order of the source:
  the wait for the committed command buffer, the commit of the current command buffer, the
  assignment to \<^verbatim>\<open>m_committedCmdBuffer\<close>, the creation of the next command buffer, and the
  two updates of the batch metrics. \<open>commit\<close> is the state in which the call returns.
\<close>

definition commit_trace :: "DeviceMetal \<Rightarrow> DeviceMetal list" where
  "commit_trace s =
     (if m_currentBatchSize s = 0 then []
      else
        let s1 = (case m_committedCmdBuffer s of
                    Some b \<Rightarrow> waitUntilCompleted b s
                  | None \<Rightarrow> s);
            s2 = commandBuffer_commit (m_cmdBuffer s1) s1;
            s3 = s2\<lparr>m_committedCmdBuffer := Some (m_cmdBuffer s2)\<rparr>;
            s4 = (snd (commandBuffer s3))\<lparr>m_cmdBuffer := fst (commandBuffer s3), encoded := 0\<rparr>;
            s5 = s4\<lparr>m_maxBatchSize := max (m_currentBatchSize s4) (m_maxBatchSize s4)\<rparr>;
            s6 = s5\<lparr>m_currentBatchSize := 0\<rparr>
        in [s1, s2, s3, s4, s5, s6])"

definition commit :: "DeviceMetal \<Rightarrow> DeviceMetal" where
  "commit s = last (s # commit_trace s)"

text \<open>
  \<^verbatim>\<open>DeviceMetal::synchronize\<close>: the call on \<^verbatim>\<open>m_committedCmdBuffer\<close> is not guarded. The
  trace is that of \<^verbatim>\<open>commit\<close>, followed by the state after the wait.
\<close>

definition synchronize :: "DeviceMetal \<Rightarrow> error + DeviceMetal" where
  "synchronize s =
     (let s1 = commit s
      in case m_committedCmdBuffer s1 of
           None \<Rightarrow> Inl NullPointerDereference
         | Some b \<Rightarrow> Inr (waitUntilCompleted b s1))"

definition synchronize_trace :: "DeviceMetal \<Rightarrow> DeviceMetal list" where
  "synchronize_trace s =
     (let s1 = commit s
      in commit_trace s @
         (case m_committedCmdBuffer s1 of
            None \<Rightarrow> []
          | Some b \<Rightarrow> [waitUntilCompleted b s1]))"

text \<open>
  \<^verbatim>\<open>DeviceMetal::commitBatchQueue\<close>. The trace is the state after the increment, followed
  by the trace of \<^verbatim>\<open>commit\<close> when it is called.
\<close>

definition commitBatchQueue :: "nat \<Rightarrow> DeviceMetal \<Rightarrow> DeviceMetal" where
  "commitBatchQueue MAX_CMD_BATCH_SIZE s =
     (let s1 = s\<lparr>m_currentBatchSize := m_currentBatchSize s + 1\<rparr>
      in if m_currentBatchSize s1 \<ge> MAX_CMD_BATCH_SIZE then commit s1 else s1)"

definition commitBatchQueue_trace :: "nat \<Rightarrow> DeviceMetal \<Rightarrow> DeviceMetal list" where
  "commitBatchQueue_trace MAX_CMD_BATCH_SIZE s =
     (let s1 = s\<lparr>m_currentBatchSize := m_currentBatchSize s + 1\<rparr>
      in s1 # (if m_currentBatchSize s1 \<ge> MAX_CMD_BATCH_SIZE then commit_trace s1 else []))"

text \<open>
  What happens to a device: an operation encodes a dispatch and calls
  \<^verbatim>\<open>commitBatchQueue\<close>; \<^verbatim>\<open>newBuffer\<close> calls \<^verbatim>\<open>commit\<close> when the working set is large; an
  operation or the user calls \<^verbatim>\<open>synchronize\<close>; the GPU completes a command buffer.
  \<open>step\<close> is the state after the event, \<open>step_trace\<close> the states passed through during
  it. The completion of a command buffer only removes it from \<open>in_flight\<close>; it is an
  event of its own, between two calls.
\<close>

datatype event = EvDispatch | EvCommit | EvSynchronize | EvCompleted nat

fun step :: "nat \<Rightarrow> DeviceMetal \<Rightarrow> event \<Rightarrow> error + DeviceMetal" where
  "step MAX_CMD_BATCH_SIZE s EvDispatch = Inr (commitBatchQueue MAX_CMD_BATCH_SIZE (dispatchThreads s))"
| "step MAX_CMD_BATCH_SIZE s EvCommit = Inr (commit s)"
| "step MAX_CMD_BATCH_SIZE s EvSynchronize = synchronize s"
| "step MAX_CMD_BATCH_SIZE s (EvCompleted b) = Inr (s\<lparr>in_flight := in_flight s - {b}\<rparr>)"

fun step_trace :: "nat \<Rightarrow> DeviceMetal \<Rightarrow> event \<Rightarrow> DeviceMetal list" where
  "step_trace MAX_CMD_BATCH_SIZE s EvDispatch =
     dispatchThreads s # commitBatchQueue_trace MAX_CMD_BATCH_SIZE (dispatchThreads s)"
| "step_trace MAX_CMD_BATCH_SIZE s EvCommit = commit_trace s"
| "step_trace MAX_CMD_BATCH_SIZE s EvSynchronize = synchronize_trace s"
| "step_trace MAX_CMD_BATCH_SIZE s (EvCompleted b) = [s\<lparr>in_flight := in_flight s - {b}\<rparr>]"

text \<open>
  A run from a state: \<open>exec_from\<close> is the state after the events, or the error that ends the
  run; \<open>trace_from\<close> lists every state passed through. \<open>exec\<close> and \<open>trace\<close> start from
  the state the constructor leaves.
\<close>

fun exec_from :: "nat \<Rightarrow> event list \<Rightarrow> DeviceMetal \<Rightarrow> error + DeviceMetal" where
  "exec_from MAX_CMD_BATCH_SIZE [] s = Inr s"
| "exec_from MAX_CMD_BATCH_SIZE (e # es) s =
     (case step MAX_CMD_BATCH_SIZE s e of
        Inl err \<Rightarrow> Inl err
      | Inr s' \<Rightarrow> exec_from MAX_CMD_BATCH_SIZE es s')"

fun trace_from :: "nat \<Rightarrow> event list \<Rightarrow> DeviceMetal \<Rightarrow> DeviceMetal list" where
  "trace_from MAX_CMD_BATCH_SIZE [] s = []"
| "trace_from MAX_CMD_BATCH_SIZE (e # es) s =
     step_trace MAX_CMD_BATCH_SIZE s e @
     (case step MAX_CMD_BATCH_SIZE s e of
        Inl err \<Rightarrow> []
      | Inr s' \<Rightarrow> trace_from MAX_CMD_BATCH_SIZE es s')"

definition exec :: "nat \<Rightarrow> event list \<Rightarrow> error + DeviceMetal" where
  "exec MAX_CMD_BATCH_SIZE es = exec_from MAX_CMD_BATCH_SIZE es DeviceMetal_new"

definition trace :: "nat \<Rightarrow> event list \<Rightarrow> DeviceMetal list" where
  "trace MAX_CMD_BATCH_SIZE es = DeviceMetal_new # trace_from MAX_CMD_BATCH_SIZE es DeviceMetal_new"

text \<open>The invariant of the states between two calls.\<close>

definition batch_invariant :: "nat \<Rightarrow> DeviceMetal \<Rightarrow> bool" where
  "batch_invariant MAX_CMD_BATCH_SIZE s \<longleftrightarrow>
     in_flight s \<subseteq> set_option (m_committedCmdBuffer s) \<and>
     (\<forall>b \<in> set_option (m_committedCmdBuffer s). b < m_cmdBuffer s) \<and>
     m_cmdBuffer s < created s \<and>
     m_currentBatchSize s = encoded s \<and>
     (0 < MAX_CMD_BATCH_SIZE \<longrightarrow> m_currentBatchSize s < MAX_CMD_BATCH_SIZE) \<and>
     (MAX_CMD_BATCH_SIZE = 0 \<longrightarrow> m_currentBatchSize s = 0)"

section \<open>Properties\<close>

subsection \<open>Evaluation of concrete inputs\<close>

lemmas count_defs = shape_count_def int_of_size_t_def size_t_of_int_def size_t_mul_def

lemmas value_defs = TensorValue_data_def TensorValue_fill_def TensorValue_shape_def
  TensorValue_strided_def copy_cells_def rd_def computeStrides_def

lemmas kernel_defs = broadcastTo_def checkBroadcastTo_def broadcastShapes_def
  broadcastToGeneric_def translationIndex_def reduceTo_def reduceToGeneric_def addGeneric_def
  mulGeneric_def unaryGeneric_def prepareTensors_def add_def mul_def iadd_def neg_def
  transpose_tv_def transposeGeneric_def swap_def to_def fill_def

lemmas tensor_defs = TensorNode_value_def TensorNode_shape_def Tensor_data_def Tensor_fill_def
  Tensor_shape_def tensor_def ones_def zeros_def value_def shape_def dataType_def device_def
  isRequireGrad_def grad_def zeroGrad_def retainGrad_def Tensor_reshape_def
  Tensor_broadcastTo_def Tensor_to_def broadcastShape_def Tensor_binary_def Tensor_add_def
  Tensor_mul_def Tensor_neg_def Tensor_transpose_def Tensor_backward_def
  Tensor_backward_shape_def or_empty_def

lemma upt_numeral_unfold: "[0..<numeral k] = [0..<pred_numeral k] @ [pred_numeral k]"
  by (simp add: numeral_eq_Suc)

lemma replicate_numeral_unfold: "replicate (numeral k) x = x # replicate (pred_numeral k) x"
  by (simp add: numeral_eq_Suc)

lemmas eval_simps = tensor_defs value_defs kernel_defs count_defs Let_def
  upt_numeral_unfold replicate_numeral_unfold

subsection \<open>The store is only extended\<close>

lemma Tensor_broadcastTo_store:
  assumes "Tensor_broadcastTo h t s = Inr (h1, r)"
  shows "r = length h \<and> length h1 = Suc (length h) \<and> (\<forall>i<length h. h1 ! i = h ! i)"
  using assms
  by (auto simp: Tensor_broadcastTo_def Tensor_data_def Let_def nth_append split: sum.splits)

lemma Tensor_to_store:
  assumes "Tensor_to h t d = (h1, r)"
  shows "length h \<le> length h1 \<and> (\<forall>i<length h. h1 ! i = h ! i)"
  using assms
  by (auto simp: Tensor_to_def Tensor_data_def Let_def nth_append split: if_splits)

lemma Tensor_binary_node:
  assumes "Tensor_binary opr bf h t other = Inr (h', z)" and "t < length h" and "other < length h"
  shows "m_requireGrad (h' ! z) = (m_requireGrad (h ! t) \<or> m_requireGrad (h ! other))
         \<and> \<not> m_retainGrad (h' ! z) \<and> m_a (h' ! z) \<noteq> None \<and> m_b (h' ! z) \<noteq> None
         \<and> z < length h'"
proof -
  from assms(1) obtain bcShape h1 lhs0 h2 lhs h3 rhs0 h4 rhs v where
    b1: "Tensor_broadcastTo h t bcShape = Inr (h1, lhs0)" and
    t1: "Tensor_to h1 lhs0 (promoteDataType (dataType h t) (dataType h other)) = (h2, lhs)" and
    b2: "Tensor_broadcastTo h2 other bcShape = Inr (h3, rhs0)" and
    t2: "Tensor_to h3 rhs0 (promoteDataType (dataType h t) (dataType h other)) = (h4, rhs)" and
    res: "h' = (h4 @ [TensorNode_shape (shape h4 t) (device h4 t)
                        (isRequireGrad h4 t \<or> isRequireGrad h4 other) (dataType h4 t)])
                 [length h4 := (TensorNode_shape (shape h4 t) (device h4 t)
                        (isRequireGrad h4 t \<or> isRequireGrad h4 other) (dataType h4 t))
                     \<lparr>m_value := v, m_a := Some lhs, m_b := Some rhs, m_backwardFunc := bf\<rparr>]"
         "z = length h4"
    by (auto simp: Tensor_binary_def Tensor_shape_def Let_def split: sum.splits prod.splits)
  note s1 = Tensor_broadcastTo_store[OF b1] and s2 = Tensor_to_store[OF t1]
    and s3 = Tensor_broadcastTo_store[OF b2] and s4 = Tensor_to_store[OF t2]
  have keep: "\<And>i. i < length h \<Longrightarrow> h4 ! i = h ! i"
    using s1 s2 s3 s4 by (metis le_imp_less_Suc less_Suc_eq less_le_trans nat_less_le)
  show ?thesis
    using res keep[OF assms(2)] keep[OF assms(3)]
    by (simp add: TensorNode_shape_def isRequireGrad_def Let_def)
qed

lemma constructors_make_leaves:
  "m_a (fst (Tensor_data h d n sd s rg dt dev) ! snd (Tensor_data h d n sd s rg dt dev)) = None"
  "m_a (fst (Tensor_fill h x s rg dt dev) ! snd (Tensor_fill h x s rg dt dev)) = None"
  "m_a (fst (Tensor_shape h s rg dt dev) ! snd (Tensor_shape h s rg dt dev)) = None"
  by (simp_all add: Tensor_data_def Tensor_fill_def Tensor_shape_def TensorNode_value_def
        TensorNode_shape_def Let_def)

subsection \<open>Gradient of a broadcast product\<close>

text \<open>
  C1. For the leaves \<open>x = [1,2,3]\<close> of shape \<open>[1,3]\<close> and \<open>y = [[7,8,9],[10,11,12]]\<close> of
  shape \<open>[2,3]\<close>, both requiring gradients, \<open>z = x * y\<close> followed by \<open>z.backward()\<close> is
  evaluated. The call returns without an exception. The gradient buffers of the two leaves
  were allocated by the constructor of \<^verbatim>\<open>TensorNode\<close> and never written, and
  \<^verbatim>\<open>defaultBackward\<close> adds the seed onto them: the result is indeterminate in every cell. When
  both buffers are zeroed first (\<^verbatim>\<open>zeroGrad\<close>), the same calls leave \<open>[17,19,21]\<close> in the
  gradient of \<open>x\<close> and \<open>[[1,2,3],[1,2,3]]\<close> in the gradient of \<open>y\<close>.
\<close>

theorem broadcast_product_gradient:
  "Tensor_mul leaves_xy 0 1 = Inr x_times_y \<and>
   fst (Tensor_backward (fst x_times_y) (snd x_times_y) 1) = None \<and>
   m_data (m_grad (snd (Tensor_backward (fst x_times_y) (snd x_times_y) 1) ! 0))
     = [None, None, None] \<and>
   m_data (m_grad (snd (Tensor_backward (fst x_times_y) (snd x_times_y) 1) ! 1))
     = [None, None, None, None, None, None] \<and>
   fst (Tensor_backward (fst x_times_y_zeroed) (snd x_times_y_zeroed) 1) = None \<and>
   m_data (m_grad (snd (Tensor_backward (fst x_times_y_zeroed) (snd x_times_y_zeroed) 1) ! 0))
     = [Some 17, Some 19, Some 21] \<and>
   m_shape (m_grad (snd (Tensor_backward (fst x_times_y_zeroed) (snd x_times_y_zeroed) 1) ! 0))
     = [1, 3] \<and>
   m_data (m_grad (snd (Tensor_backward (fst x_times_y_zeroed) (snd x_times_y_zeroed) 1) ! 1))
     = [Some 1, Some 2, Some 3, Some 1, Some 2, Some 3] \<and>
   m_shape (m_grad (snd (Tensor_backward (fst x_times_y_zeroed) (snd x_times_y_zeroed) 1) ! 1))
     = [2, 3]"
  by (simp add: x_times_y_def x_times_y_zeroed_def leaves_xy_def eval_simps backward.simps)

subsection \<open>Shape and type of the gradient of a node\<close>

text \<open>
  C2. The gradient of a node is meant to have the shape, data type and device of its value.
  The nodes returned by \<^verbatim>\<open>Tensor::operator+\<close> and \<^verbatim>\<open>Tensor::transpose\<close> are evaluated:
  for \<open>x + y\<close> with \<open>x\<close> of shape \<open>[1,3]\<close> and \<open>y\<close> of shape \<open>[2,3]\<close> the value has shape
  \<open>[2,3]\<close> and the gradient has shape \<open>[1,3]\<close>; for the transpose of a \<open>[3,2]\<close> tensor the
  value has shape \<open>[2,3]\<close> and the gradient has shape \<open>[3,2]\<close>; for the sum of a
  \<^verbatim>\<open>kFloat32\<close> and a \<^verbatim>\<open>kFloat64\<close> tensor the value is \<^verbatim>\<open>kFloat64\<close> and the gradient
  \<^verbatim>\<open>kFloat32\<close>.
\<close>

theorem gradient_shape_differs_from_value:
  "Tensor_add leaves_xy 0 1 = Inr x_plus_y \<and>
   m_shape (m_value (fst x_plus_y ! snd x_plus_y)) = [2, 3] \<and>
   m_shape (m_grad (fst x_plus_y ! snd x_plus_y)) = [1, 3] \<and>
   Tensor_transpose leaf_3x2 0 0 1 = Inr transposed_3x2 \<and>
   m_shape (m_value (fst transposed_3x2 ! snd transposed_3x2)) = [2, 3] \<and>
   m_shape (m_grad (fst transposed_3x2 ! snd transposed_3x2)) = [3, 2] \<and>
   Tensor_add leaves_plain 0 1 = Inr plain_sum \<and>
   m_dType (m_value (fst plain_sum ! snd plain_sum)) = kFloat64 \<and>
   m_dType (m_grad (fst plain_sum ! snd plain_sum)) = kFloat32"
  by (simp add: x_plus_y_def transposed_3x2_def plain_sum_def leaves_xy_def leaf_3x2_def
        leaves_plain_def eval_simps)

subsection \<open>Reading the gradient of a node\<close>

text \<open>
  C3. \<^verbatim>\<open>Tensor::grad\<close> throws exactly when the node neither requires gradients nor retains
  them, whether the node has parents or not, and a node made by an operator takes
  \<^verbatim>\<open>require_grad\<close> from its operands. The product \<open>x * y\<close> of the two leaves of
  \<open>leaves_xy\<close>, the transpose and the negation of the leaf of \<open>leaf_3x2\<close> are nodes with a
  parent on which \<^verbatim>\<open>retainGrad\<close> was not called: \<^verbatim>\<open>grad()\<close> does not throw on them, it
  returns the gradient buffer of the node. That buffer was allocated and never written, and
  for \<open>x * y\<close> it has the shape \<open>[1,3]\<close> of the left operand while the value has the shape
  \<open>[2,3]\<close>. On the sum of the two leaves of \<open>leaves_plain\<close>, which do not require
  gradients, the read throws.
\<close>

theorem nonleaf_grad_read:
  "(grad h t = Inl RuntimeError) = (\<not> m_requireGrad (h ! t) \<and> \<not> m_retainGrad (h ! t)) \<and>
   Tensor_mul leaves_xy 0 1 = Inr x_times_y \<and>
   m_a (fst x_times_y ! snd x_times_y) \<noteq> None \<and>
   \<not> m_retainGrad (fst x_times_y ! snd x_times_y) \<and>
   grad (fst x_times_y) (snd x_times_y) = Inr (m_grad (fst x_times_y ! snd x_times_y)) \<and>
   m_data (m_grad (fst x_times_y ! snd x_times_y)) = [None, None, None] \<and>
   m_shape (m_grad (fst x_times_y ! snd x_times_y)) = [1, 3] \<and>
   m_shape (m_value (fst x_times_y ! snd x_times_y)) = [2, 3] \<and>
   Tensor_transpose leaf_3x2 0 0 1 = Inr transposed_3x2 \<and>
   m_a (fst transposed_3x2 ! snd transposed_3x2) \<noteq> None \<and>
   \<not> m_retainGrad (fst transposed_3x2 ! snd transposed_3x2) \<and>
   grad (fst transposed_3x2) (snd transposed_3x2)
     = Inr (m_grad (fst transposed_3x2 ! snd transposed_3x2)) \<and>
   m_data (m_grad (fst transposed_3x2 ! snd transposed_3x2))
     = [None, None, None, None, None, None] \<and>
   m_a (fst negated_3x2 ! snd negated_3x2) \<noteq> None \<and>
   \<not> m_retainGrad (fst negated_3x2 ! snd negated_3x2) \<and>
   grad (fst negated_3x2) (snd negated_3x2) = Inr (m_grad (fst negated_3x2 ! snd negated_3x2)) \<and>
   m_data (m_grad (fst negated_3x2 ! snd negated_3x2))
     = [None, None, None, None, None, None] \<and>
   Tensor_add leaves_plain 0 1 = Inr plain_sum \<and>
   m_a (fst plain_sum ! snd plain_sum) \<noteq> None \<and>
   \<not> m_retainGrad (fst plain_sum ! snd plain_sum) \<and>
   grad (fst plain_sum) (snd plain_sum) = Inl RuntimeError"
proof -
  have g: "(grad h t = Inl RuntimeError) = (\<not> m_requireGrad (h ! t) \<and> \<not> m_retainGrad (h ! t))"
    by (simp add: grad_def)
  have m: "Tensor_mul leaves_xy 0 1 = Inr x_times_y \<and>
   m_a (fst x_times_y ! snd x_times_y) \<noteq> None \<and>
   \<not> m_retainGrad (fst x_times_y ! snd x_times_y) \<and>
   grad (fst x_times_y) (snd x_times_y) = Inr (m_grad (fst x_times_y ! snd x_times_y)) \<and>
   m_data (m_grad (fst x_times_y ! snd x_times_y)) = [None, None, None] \<and>
   m_shape (m_grad (fst x_times_y ! snd x_times_y)) = [1, 3] \<and>
   m_shape (m_value (fst x_times_y ! snd x_times_y)) = [2, 3]"
    by (simp add: x_times_y_def leaves_xy_def eval_simps)
  have tr: "Tensor_transpose leaf_3x2 0 0 1 = Inr transposed_3x2 \<and>
   m_a (fst transposed_3x2 ! snd transposed_3x2) \<noteq> None \<and>
   \<not> m_retainGrad (fst transposed_3x2 ! snd transposed_3x2) \<and>
   grad (fst transposed_3x2) (snd transposed_3x2)
     = Inr (m_grad (fst transposed_3x2 ! snd transposed_3x2)) \<and>
   m_data (m_grad (fst transposed_3x2 ! snd transposed_3x2))
     = [None, None, None, None, None, None]"
    by (simp add: transposed_3x2_def leaf_3x2_def eval_simps)
  have n: "m_a (fst negated_3x2 ! snd negated_3x2) \<noteq> None \<and>
   \<not> m_retainGrad (fst negated_3x2 ! snd negated_3x2) \<and>
   grad (fst negated_3x2) (snd negated_3x2) = Inr (m_grad (fst negated_3x2 ! snd negated_3x2)) \<and>
   m_data (m_grad (fst negated_3x2 ! snd negated_3x2))
     = [None, None, None, None, None, None]"
    by (simp add: negated_3x2_def leaf_3x2_def eval_simps)
  have p: "Tensor_add leaves_plain 0 1 = Inr plain_sum \<and>
   m_a (fst plain_sum ! snd plain_sum) \<noteq> None \<and>
   \<not> m_retainGrad (fst plain_sum ! snd plain_sum) \<and>
   grad (fst plain_sum) (snd plain_sum) = Inl RuntimeError"
    by (simp add: plain_sum_def leaves_plain_def eval_simps)
  from g m tr n p show ?thesis by blast
qed

subsection \<open>Reshape\<close>

text \<open>
  C7. \<^verbatim>\<open>reshape\<close> compares the element count of the tensor with the count of the new shape.
  The count is accumulated in a 32-bit \<^verbatim>\<open>int\<close>: for the new shape \<open>[4294967302]\<close>, whose
  product is \<open>2^32 + 6\<close>, the computed count is 6, and the reshape of a tensor of 6 elements
  succeeds, on \<^verbatim>\<open>TensorValue\<close> and on \<^verbatim>\<open>Tensor\<close>.
\<close>

theorem reshape_count_wraps:
  "prod_list [4294967302] \<noteq> m_size (value leaf_3x2 0) \<and>
   m_size (value leaf_3x2 0) = 6 \<and>
   shape_count [4294967302] = 6 \<and>
   reshape (value leaf_3x2 0) [4294967302]
     = Inr (TensorValue_data (m_data (value leaf_3x2 0)) 6 kFloat32 [4294967302] 0 kFloat32) \<and>
   Tensor_reshape leaf_3x2 0 [4294967302] = Inr reshaped_3x2 \<and>
   shape (fst reshaped_3x2) (snd reshaped_3x2) = [4294967302] \<and>
   m_data (value (fst reshaped_3x2) (snd reshaped_3x2))
     = [Some 1, Some 2, Some 3, Some 4, Some 5, Some 6]"
  by (simp add: reshaped_3x2_def leaf_3x2_def reshape_def eval_simps)

subsection \<open>The default backward call on a leaf\<close>

text \<open>
  C10. \<^verbatim>\<open>Tensor::backward(float value = 1)\<close> reads \<^verbatim>\<open>m_data->m_a->m_grad.shape()\<close>. On a node
  without a parent the pointer \<^verbatim>\<open>m_a\<close> is null and is dereferenced, before anything in the
  graph is changed; on a node with a parent the call proceeds to \<^verbatim>\<open>TensorNode::backward\<close>
  with a seed of the shape of the gradient of that parent. The constructors of \<^verbatim>\<open>Tensor\<close>
  make nodes without parents (lemma \<open>constructors_make_leaves\<close>).
\<close>

theorem default_backward_on_leaf:
  "(m_a (h ! t) = None \<longrightarrow> Tensor_backward h t v = (Some NullPointerDereference, h)) \<and>
   (\<forall>a. m_a (h ! t) = Some a \<longrightarrow>
      Tensor_backward h t v =
        backward h t (TensorValue_fill v (m_shape (m_grad (h ! a))) (device h t) (dataType h t)))"
  by (simp add: Tensor_backward_def)

theorem default_backward_on_leaf_witness:
  "m_a (fst (ones [] [2, 2] True) ! snd (ones [] [2, 2] True)) = None \<and>
   Tensor_backward (fst (ones [] [2, 2] True)) (snd (ones [] [2, 2] True)) 1
     = (Some NullPointerDereference, fst (ones [] [2, 2] True))"
proof -
  have leaf: "m_a (fst (ones [] [2, 2] True) ! snd (ones [] [2, 2] True)) = None"
    unfolding ones_def by (rule constructors_make_leaves(2))
  from default_backward_on_leaf[of "fst (ones [] [2, 2] True)" "snd (ones [] [2, 2] True)" 1] leaf
  show ?thesis by blast
qed

subsection \<open>Broadcasting to a target shape\<close>

lemma all_less_Suc_shift: "(\<forall>i < Suc n. P i) \<longleftrightarrow> P 0 \<and> (\<forall>i < n. P (Suc i))"
  by (metis less_Suc_eq_0_disj)

lemma checkBroadcastTo_loop_iff:
  "length xs \<le> length ys \<Longrightarrow>
   checkBroadcastTo_loop xs ys \<longleftrightarrow>
     (\<forall>i < length ys. (if i < length xs then xs ! i else 1) = ys ! i
                      \<or> (if i < length xs then xs ! i else 1) = 1)"
proof (induction xs ys rule: checkBroadcastTo_loop.induct)
  case (1 itSrc)
  then show ?case by simp
next
  case (2 dimTgt itTgt)
  then show ?case by simp
next
  case (3 dimSrc itSrc dimTgt itTgt)
  then show ?case by (simp add: all_less_Suc_shift)
qed

lemma checkBroadcastTo_iff: "checkBroadcastTo src tgt \<longleftrightarrow> broadcastable_to src tgt"
proof (cases "length src \<le> length tgt")
  case True
  then show ?thesis
    using checkBroadcastTo_loop_iff[of "rev src" "rev tgt"]
    by (simp add: checkBroadcastTo_def broadcastable_to_def dim_from_end_def)
next
  case False
  then show ?thesis by (simp add: checkBroadcastTo_def broadcastable_to_def)
qed

lemma broadcastShapes_loop_checked:
  "length xs \<le> length ys \<Longrightarrow> checkBroadcastTo_loop xs ys \<Longrightarrow>
   \<exists>r. broadcastShapes_loop xs ys = Inr r \<and> length r = length ys \<and> (0 \<notin> set ys \<longrightarrow> r = ys)"
proof (induction xs ys rule: broadcastShapes_loop.induct)
  case 1
  then show ?case by simp
next
  case (2 dim1 it1)
  then show ?case by simp
next
  case (3 dim2 it2)
  then show ?case by (auto simp: max_def)
next
  case (4 dim1 it1 dim2 it2)
  then show ?case by (auto simp: max_def split: if_splits)
qed

text \<open>
  C5, as stated, fails: the shapes \<open>[3]\<close> and \<open>[1]\<close> are compatible in the symmetric sense
  (one side is 1), and broadcasting a tensor of shape \<open>[3]\<close> to \<open>[1]\<close> throws.
\<close>

theorem broadcastTo_symmetric_rule_counterexample:
  "broadcast_compatible [3] [1] \<and>
   broadcastTo (TensorValue_data [Some 1, Some 2, Some 3] 3 kFloat32 [3] 0 kFloat32) [1]
     = Inl InvalidArgument"
  by (simp add: broadcast_compatible_def dim_from_end_def broadcastTo_def checkBroadcastTo_def
        TensorValue_data_def)

text \<open>
  C5, amended. \<^verbatim>\<open>broadcastTo\<close> succeeds exactly when the source shape has no more dimensions
  than the target and, right-aligned, each dimension of the source equals that of the target
  or is 1 (missing leading dimensions of the source count as 1). On success the result has
  the shape \<^verbatim>\<open>broadcastShapes\<close> gives, which is the target shape when no target dimension is
  0, canonical strides, the element count of its shape with as many cells, and the data type
  and device of the source; otherwise the call throws \<^verbatim>\<open>std::invalid_argument\<close>.
\<close>

theorem broadcastTo_succeeds_iff:
  "(broadcastable_to (m_shape t) s \<longrightarrow>
      (\<exists>r. broadcastTo t s = Inr r \<and> broadcastShapes (m_shape t) s = Inr (m_shape r) \<and>
           (0 \<notin> set s \<longrightarrow> m_shape r = s) \<and>
           m_strides r = computeStrides (m_shape r) \<and> m_size r = shape_count (m_shape r) \<and>
           length (m_data r) = m_size r \<and> m_dType r = m_dType t \<and> m_device r = m_device t)) \<and>
   (\<not> broadcastable_to (m_shape t) s \<longrightarrow> broadcastTo t s = Inl InvalidArgument)"
proof (cases "broadcastable_to (m_shape t) s")
  case False
  then show ?thesis by (simp add: broadcastTo_def checkBroadcastTo_iff)
next
  case True
  then have chk: "checkBroadcastTo (m_shape t) s" by (simp add: checkBroadcastTo_iff)
  then have len: "length (rev (m_shape t)) \<le> length (rev s)"
    and lp: "checkBroadcastTo_loop (rev (m_shape t)) (rev s)"
    by (auto simp: checkBroadcastTo_def split: if_splits)
  from broadcastShapes_loop_checked[OF len lp] obtain r where
    r: "broadcastShapes_loop (rev (m_shape t)) (rev s) = Inr r" "0 \<notin> set (rev s) \<longrightarrow> r = rev s"
    by blast
  then have bs: "broadcastShapes (m_shape t) s = Inr (rev r)" by (simp add: broadcastShapes_def)
  have eq: "0 \<notin> set s \<longrightarrow> rev r = s" using r(2) by auto
  show ?thesis using True chk bs eq
    by (simp add: broadcastTo_def TensorValue_shape_def broadcastToGeneric_def Let_def)
qed

theorem broadcastTo_succeeds_iff_witness:
  "broadcastable_to [1, 3] [2, 3] \<and>
   (\<exists>r. broadcastTo (value leaves_xy 0) [2, 3] = Inr r \<and> m_shape r = [2, 3] \<and>
        m_strides r = computeStrides [2, 3] \<and> m_size r = shape_count [2, 3]) \<and>
   \<not> broadcastable_to [2, 3] [1, 3] \<and>
   broadcastTo (value leaves_xy 1) [1, 3] = Inl InvalidArgument"
proof -
  have s0: "m_shape (value leaves_xy 0) = [1, 3]" and s1: "m_shape (value leaves_xy 1) = [2, 3]"
    by (simp_all add: leaves_xy_def eval_simps)
  have ok: "broadcastable_to [1, 3] [2, 3]"
    by (simp add: broadcastable_to_def dim_from_end_def all_less_Suc_shift numeral_2_eq_2)
  have no: "\<not> broadcastable_to [2, 3] [1, 3]"
    by (simp add: broadcastable_to_def dim_from_end_def all_less_Suc_shift numeral_2_eq_2)
  have z: "0 \<notin> set [2, 3::nat]" by simp
  from broadcastTo_succeeds_iff[of "value leaves_xy 0" "[2, 3]"]
       broadcastTo_succeeds_iff[of "value leaves_xy 1" "[1, 3]"] s0 s1 ok no z
  show ?thesis by (metis (no_types, lifting))
qed

subsection \<open>Backward with a seed shape\<close>

lemma broadcastShapes_loop_error:
  "broadcastShapes_loop xs ys = Inl e \<Longrightarrow> e = InvalidArgument"
  by (induction xs ys rule: broadcastShapes_loop.induct) (auto split: sum.splits if_splits)

lemma broadcastShapes_loop_ok_iff:
  "(\<exists>r. broadcastShapes_loop xs ys = Inr r) \<longleftrightarrow>
     (\<forall>i < max (length xs) (length ys).
          (if i < length xs then xs ! i else 1) = (if i < length ys then ys ! i else 1)
          \<or> (if i < length xs then xs ! i else 1) = 1
          \<or> (if i < length ys then ys ! i else 1) = 1)"
proof (induction xs ys rule: broadcastShapes_loop.induct)
  case 1
  then show ?case by simp
next
  case (2 dim1 it1)
  have "(\<exists>r. broadcastShapes_loop (dim1 # it1) [] = Inr r)
        \<longleftrightarrow> (\<exists>r. broadcastShapes_loop it1 [] = Inr r)"
    by (auto split: sum.splits)
  also note 2
  finally show ?case by (simp add: all_less_Suc_shift)
next
  case (3 dim2 it2)
  have "(\<exists>r. broadcastShapes_loop [] (dim2 # it2) = Inr r)
        \<longleftrightarrow> (\<exists>r. broadcastShapes_loop [] it2 = Inr r)"
    by (auto split: sum.splits)
  also note 3
  finally show ?case by (simp add: all_less_Suc_shift)
next
  case (4 dim1 it1 dim2 it2)
  show ?case
  proof (cases "dim1 \<noteq> dim2 \<and> dim1 \<noteq> 1 \<and> dim2 \<noteq> 1")
    case True
    then show ?thesis by (simp add: all_less_Suc_shift)
  next
    case False
    have "(\<exists>r. broadcastShapes_loop (dim1 # it1) (dim2 # it2) = Inr r)
          \<longleftrightarrow> (\<exists>r. broadcastShapes_loop it1 it2 = Inr r)"
      using False by (auto split: sum.splits)
    also note 4[OF False]
    finally show ?thesis using False by (simp add: all_less_Suc_shift)
  qed
qed

lemma broadcastShapes_fails_iff:
  "broadcastShapes s1 s2 = Inl InvalidArgument \<longleftrightarrow> \<not> broadcast_compatible s1 s2"
proof -
  have "broadcast_compatible s1 s2 \<longleftrightarrow> (\<exists>r. broadcastShapes_loop (rev s1) (rev s2) = Inr r)"
    by (simp add: broadcastShapes_loop_ok_iff broadcast_compatible_def dim_from_end_def)
  then show ?thesis
    by (auto simp: broadcastShapes_def split: sum.splits dest: broadcastShapes_loop_error)
qed

lemma iadd_incompatible:
  assumes "m_dType g = m_dType s" and "m_shape g \<noteq> m_shape s"
      and "\<not> broadcast_compatible (m_shape g) (m_shape s)"
  shows "iadd g s = Inl InvalidArgument"
  using assms by (simp add: iadd_def prepareTensors_def broadcastShapes_fails_iff[symmetric])



lemma transpose_fails_iff:
  "transpose_tv t d0 d1 = Inl InvalidArgument \<longleftrightarrow> d0 \<ge> length (m_shape t) \<or> d1 \<ge> length (m_shape t)"
  by (auto simp: transpose_tv_def Let_def)
























subsection \<open>Transposing twice\<close>

text \<open>The element count of a shape whose product fits a 32-bit \<^verbatim>\<open>int\<close> is the product.\<close>

lemma size_t_of_int_small: "0 \<le> a \<Longrightarrow> a < 2 ^ 31 \<Longrightarrow> size_t_of_int a = nat a"
  by (simp add: size_t_of_int_def)

lemma int_of_size_t_small: "n < 2 ^ 31 \<Longrightarrow> int_of_size_t n = int n"
  by (simp add: int_of_size_t_def Let_def)

lemma accumulate_multiplies_zero: "accumulate_multiplies ds 0 = 0"
  by (induction ds) (simp_all add: size_t_of_int_def size_t_mul_def int_of_size_t_def)

lemma accumulate_multiplies_has_zero: "0 \<in> set ds \<Longrightarrow> accumulate_multiplies ds acc = 0"
proof (induction ds arbitrary: acc)
  case Nil
  then show ?case by simp
next
  case (Cons d ds)
  show ?case
  proof (cases "d = 0")
    case True
    then show ?thesis
      by (simp add: size_t_mul_def int_of_size_t_def accumulate_multiplies_zero)
  next
    case False
    with Cons show ?thesis by simp
  qed
qed

lemma accumulate_multiplies_small:
  "0 \<le> acc \<Longrightarrow> acc < 2 ^ 31 \<Longrightarrow> nat acc * prod_list ds < 2 ^ 31 \<Longrightarrow>
   accumulate_multiplies ds acc = acc * int (prod_list ds)"
proof (induction ds arbitrary: acc)
  case Nil
  then show ?case by simp
next
  case (Cons d ds)
  show ?case
  proof (cases "prod_list ds = 0")
    case True
    then have "0 \<in> set (d # ds)" by (simp add: prod_list_zero_iff)
    then show ?thesis using True by (simp only: accumulate_multiplies_has_zero) simp
  next
    case False
    then have pos: "0 < prod_list ds" by simp
    have le: "nat acc * d \<le> nat acc * d * prod_list ds"
      using pos by simp
    have "nat acc * d * prod_list ds < 2 ^ 31"
      using Cons.prems(3) by (simp add: mult.assoc)
    with le have small: "nat acc * d < 2 ^ 31" by (rule le_less_trans)
    have m: "size_t_mul (size_t_of_int acc) d = nat acc * d"
      using Cons.prems small by (simp add: size_t_of_int_small size_t_mul_def)
    have i: "int_of_size_t (nat acc * d) = acc * int d"
      using small Cons.prems(1) by (simp add: int_of_size_t_small)
    have "accumulate_multiplies ds (acc * int d) = (acc * int d) * int (prod_list ds)"
    proof (rule Cons.IH)
      show "0 \<le> acc * int d" using Cons.prems(1) by simp
      show "acc * int d < 2 ^ 31" using small Cons.prems(1)
        by (metis i int_of_size_t_small of_nat_less_numeral_power_cancel_iff of_nat_numeral)
      show "nat (acc * int d) * prod_list ds < 2 ^ 31"
        using Cons.prems by (simp add: nat_mult_distrib mult.assoc)
    qed
    then show ?thesis by (simp add: m i mult.assoc)
  qed
qed

lemma shape_count_small: "prod_list s < 2 ^ 31 \<Longrightarrow> shape_count s = prod_list s"
  using accumulate_multiplies_small[of 1 s] by (simp add: shape_count_def size_t_of_int_small)

text \<open>The strides: the running product is the product of the dimensions modulo \<open>2^64\<close>.\<close>

lemma computeStrides_loop_fst: "fst (computeStrides_loop s) = prod_list s mod 2 ^ 64"
proof (induction s)
  case Nil
  then show ?case by simp
next
  case (Cons d ds)
  have "fst (computeStrides_loop (d # ds)) = (prod_list ds mod 2 ^ 64 * d) mod 2 ^ 64"
    using Cons by (simp add: case_prod_beta size_t_mul_def)
  also have "\<dots> = (prod_list ds * d) mod 2 ^ 64" by (rule mod_mult_left_eq)
  finally show ?case by (simp add: mult.commute)
qed

lemma computeStrides_Nil: "computeStrides [] = []"
  by (simp add: computeStrides_def)

lemma computeStrides_Cons:
  "computeStrides (d # ds) = (prod_list ds mod 2 ^ 64) # computeStrides ds"
  by (simp add: computeStrides_def case_prod_beta computeStrides_loop_fst)

lemma length_computeStrides: "length (computeStrides s) = length s"
  by (induction s) (simp_all add: computeStrides_Nil computeStrides_Cons)

lemma computeStrides_nat:
  "0 \<notin> set s \<Longrightarrow> prod_list s < 2 ^ 64 \<Longrightarrow> computeStrides s = strides_nat s"
proof (induction s)
  case Nil
  then show ?case by (simp add: computeStrides_Nil)
next
  case (Cons d ds)
  from Cons.prems(1) have d: "0 < d" and z: "0 \<notin> set ds" by auto
  have le: "prod_list ds \<le> d * prod_list ds" using d by simp
  have "d * prod_list ds < 2 ^ 64" using Cons.prems(2) by simp
  with le have small: "prod_list ds < 2 ^ 64" by (rule le_less_trans)
  show ?case using Cons.IH[OF z small] small by (simp add: computeStrides_Cons)
qed

text \<open>The two conversions between flat and multi-dimensional indices.\<close>

lemma unflattenIndex_valid:
  "i < prod_list s \<Longrightarrow> list_all2 (<) (unflattenIndex i (strides_nat s)) s"
proof (induction s arbitrary: i)
  case Nil
  then show ?case by simp
next
  case (Cons d ds)
  from Cons.prems have pos: "0 < prod_list ds" by (cases "prod_list ds = 0") simp_all
  have "i div prod_list ds < d"
    using Cons.prems pos by (simp add: less_mult_imp_div_less mult.commute)
  moreover have "i mod prod_list ds < prod_list ds" using pos by simp
  ultimately show ?case using Cons.IH by simp
qed

lemma flatten_unflatten:
  "i < prod_list s \<Longrightarrow> flattenIndex (unflattenIndex i (strides_nat s)) (strides_nat s) = i"
proof (induction s arbitrary: i)
  case Nil
  then show ?case by simp
next
  case (Cons d ds)
  from Cons.prems have pos: "0 < prod_list ds" by (cases "prod_list ds = 0") simp_all
  have "i mod prod_list ds < prod_list ds" using pos by simp
  from Cons.IH[OF this] show ?case by simp
qed

lemma flattenIndex_bound:
  "list_all2 (<) idx s \<Longrightarrow> flattenIndex idx (strides_nat s) < prod_list s"
proof (induction idx s rule: list_all2_induct)
  case Nil
  then show ?case by simp
next
  case (Cons x xs d ds)
  have "x * prod_list ds + flattenIndex xs (strides_nat ds) < x * prod_list ds + prod_list ds"
    using Cons.IH by simp
  also have "\<dots> = Suc x * prod_list ds" by simp
  also have "\<dots> \<le> d * prod_list ds" using Cons.hyps(1) by (intro mult_le_mono1) simp
  finally show ?case by simp
qed

lemma unflatten_flatten:
  "list_all2 (<) idx s \<Longrightarrow>
   unflattenIndex (flattenIndex idx (strides_nat s)) (strides_nat s) = idx"
proof (induction idx s rule: list_all2_induct)
  case Nil
  then show ?case by simp
next
  case (Cons x xs d ds)
  have b: "flattenIndex xs (strides_nat ds) < prod_list ds"
    using Cons.hyps(2) by (rule flattenIndex_bound)
  then show ?case using Cons.IH by simp
qed

lemma length_swap: "length (swap v i j) = length v"
  by (simp add: swap_def)

lemma swap_swap: "i < length v \<Longrightarrow> j < length v \<Longrightarrow> swap (swap v i j) i j = v"
  by (auto simp: swap_def list_eq_iff_nth_eq nth_list_update)

lemma swap_valid:
  "list_all2 (<) idx s \<Longrightarrow> i < length s \<Longrightarrow> j < length s \<Longrightarrow>
   list_all2 (<) (swap idx i j) (swap s i j)"
  by (auto simp: swap_def list_all2_conv_all_nth nth_list_update)

lemma prod_list_update: "i < length v \<Longrightarrow> prod_list (v[i := x]) * v ! i = prod_list v * (x::nat)"
proof (induction v arbitrary: i)
  case Nil
  then show ?case by simp
next
  case (Cons a v)
  then show ?case by (cases i) (simp_all add: mult.assoc mult.left_commute)
qed

lemma prod_list_swap:
  assumes "i < length v" "j < length v"
  shows "prod_list (swap v i j) = prod_list (v::nat list)"
proof (cases "i = j")
  case True
  then show ?thesis using assms by (simp add: swap_def)
next
  case False
  show ?thesis
  proof (cases "0 \<in> set v")
    case True
    have "set (swap v i j) = set v" using assms by (simp add: swap_def set_swap)
    with True have "prod_list (swap v i j) = 0" and "prod_list v = 0"
      by (simp_all add: prod_list_zero_iff)
    then show ?thesis by simp
  next
    case pos: False
    then have nz: "v ! i \<noteq> 0" "v ! j \<noteq> 0" using assms by (metis nth_mem)+
    have 1: "prod_list (v[i := v ! j]) * v ! i = prod_list v * v ! j"
      using assms(1) by (rule prod_list_update)
    have 2: "prod_list (v[i := v ! j, j := v ! i]) * (v[i := v ! j]) ! j
               = prod_list (v[i := v ! j]) * v ! i"
      using assms(2) by (intro prod_list_update) simp
    have 3: "(v[i := v ! j]) ! j = v ! j" using False by simp
    from 1 2 3 have "prod_list (v[i := v ! j, j := v ! i]) * v ! j = prod_list v * v ! j"
      by simp
    with nz show ?thesis by (simp add: swap_def)
  qed
qed

text \<open>The scatter loop of \<^verbatim>\<open>transposeGeneric\<close> along an injective index map.\<close>

lemma scatter_length: "length (fold (\<lambda>i r. r[f i := g i]) xs res) = length res"
  by (induction xs arbitrary: res) simp_all

lemma scatter_nth:
  "(\<forall>i<n. \<forall>j<n. f i = f j \<longrightarrow> i = j) \<Longrightarrow> (\<forall>i<n. f i < length res) \<Longrightarrow>
   \<forall>i<n. fold (\<lambda>i r. r[f i := g i]) [0..<n] res ! (f i) = g i"
proof (induction n)
  case 0
  then show ?case by simp
next
  case (Suc n)
  let ?r = "fold (\<lambda>i r. r[f i := g i]) [0..<n] res"
  have IH: "\<forall>i<n. ?r ! (f i) = g i" using Suc by simp
  have len: "length ?r = length res" by (rule scatter_length)
  show ?case
  proof (intro allI impI)
    fix i assume i: "i < Suc n"
    show "fold (\<lambda>i r. r[f i := g i]) [0..<Suc n] res ! (f i) = g i"
    proof (cases "i = n")
      case True
      then show ?thesis using Suc.prems(2) len by simp
    next
      case False
      then have "i < n" using i by simp
      moreover from this have "f i \<noteq> f n" using Suc.prems(1) by (metis lessI less_SucI nat_neq_iff)
      ultimately show ?thesis using IH by simp
    qed
  qed
qed

lemma transposed_index_bound:
  assumes "d0 < length s" "d1 < length s" "i < prod_list s"
  shows "flattenIndex (swap (unflattenIndex i (strides_nat s)) d0 d1)
           (strides_nat (swap s d0 d1)) < prod_list s"
proof -
  have "list_all2 (<) (swap (unflattenIndex i (strides_nat s)) d0 d1) (swap s d0 d1)"
    using assms by (intro swap_valid unflattenIndex_valid)
  from flattenIndex_bound[OF this] show ?thesis using assms by (simp add: prod_list_swap)
qed

lemma transposed_index_inverse:
  assumes "d0 < length s" "d1 < length s" "i < prod_list s"
  shows "flattenIndex
           (swap (unflattenIndex
                    (flattenIndex (swap (unflattenIndex i (strides_nat s)) d0 d1)
                       (strides_nat (swap s d0 d1)))
                    (strides_nat (swap s d0 d1))) d0 d1)
           (strides_nat (swap (swap s d0 d1) d0 d1)) = i"
proof -
  let ?idx = "unflattenIndex i (strides_nat s)"
  have v: "list_all2 (<) ?idx s" using assms(3) by (rule unflattenIndex_valid)
  then have l: "length ?idx = length s" by (rule list_all2_lengthD)
  have "list_all2 (<) (swap ?idx d0 d1) (swap s d0 d1)"
    using v assms(1,2) by (rule swap_valid)
  then have "unflattenIndex (flattenIndex (swap ?idx d0 d1) (strides_nat (swap s d0 d1)))
               (strides_nat (swap s d0 d1)) = swap ?idx d0 d1"
    by (rule unflatten_flatten)
  moreover have "swap (swap ?idx d0 d1) d0 d1 = ?idx" using assms l by (simp add: swap_swap)
  moreover have "swap (swap s d0 d1) d0 d1 = s" using assms by (simp add: swap_swap)
  ultimately show ?thesis using assms(3) by (simp add: flatten_unflatten)
qed

lemma transposeGeneric_nth:
  assumes d: "d0 < length s" "d1 < length s" and n: "n = prod_list s" and l: "length res = n"
      and k: "k < n"
  shows "transposeGeneric d0 d1 src (strides_nat s) (strides_nat (swap s d0 d1)) n res
           ! (flattenIndex (swap (unflattenIndex k (strides_nat s)) d0 d1)
                (strides_nat (swap s d0 d1)))
         = rd src k"
proof -
  let ?f = "\<lambda>i. flattenIndex (swap (unflattenIndex i (strides_nat s)) d0 d1)
                   (strides_nat (swap s d0 d1))"
  let ?g = "\<lambda>m. flattenIndex (swap (unflattenIndex m (strides_nat (swap s d0 d1))) d0 d1)
                   (strides_nat (swap (swap s d0 d1) d0 d1))"
  have g: "\<And>i. i < n \<Longrightarrow> ?g (?f i) = i"
    using transposed_index_inverse[OF d] n by blast
  have inj: "\<forall>i<n. \<forall>j<n. ?f i = ?f j \<longrightarrow> i = j"
  proof (intro allI impI)
    fix i j assume i: "i < n" and j: "j < n" and eq: "?f i = ?f j"
    have "i = ?g (?f i)" using g[OF i] by (rule sym)
    also have "\<dots> = ?g (?f j)" by (simp only: eq)
    also have "\<dots> = j" by (rule g[OF j])
    finally show "i = j" .
  qed
  have bound: "\<forall>i<n. ?f i < length res"
    using transposed_index_bound[OF d] n l by simp
  from scatter_nth[of n ?f res "rd src", OF inj bound] k
  show ?thesis by (simp add: transposeGeneric_def)
qed

lemma length_transposeGeneric:
  "length (transposeGeneric d0 d1 src st nst n res) = length res"
  by (simp add: transposeGeneric_def scatter_length)

text \<open>
  Below \<open>2^31\<close> elements: for every tensor value that satisfies the invariant and every
  pair of dimensions \<open>dim0\<close>, \<open>dim1\<close> of its shape, the transpose succeeds, its result
  satisfies the invariant and has the two dimensions swapped, and transposing the result
  again with the same dimensions returns the tensor itself.
\<close>

lemma transpose_twice_below_int_max:
  assumes wf: "well_formed t" and small: "m_size t < 2 ^ 31"
      and d: "dim0 < length (m_shape t)" "dim1 < length (m_shape t)"
  shows "\<exists>t1. transpose_tv t dim0 dim1 = Inr t1 \<and> well_formed t1 \<and>
              m_shape t1 = swap (m_shape t) dim0 dim1 \<and>
              transpose_tv t1 dim0 dim1 = Inr t"
proof -
  let ?s = "m_shape t"
  let ?s' = "swap ?s dim0 dim1"
  let ?n = "prod_list ?s"
  from wf have sz: "m_size t = ?n"
    and st: "m_strides t = computeStrides ?s" and ln: "length (m_data t) = ?n"
    by (simp_all add: well_formed_def)
  from small sz have small: "?n < 2 ^ 31" by simp
  have p': "prod_list ?s' = ?n" using d by (rule prod_list_swap)
  have c': "shape_count ?s' = ?n" using small p' by (simp add: shape_count_small)
  have c: "shape_count ?s = ?n" using small by (simp add: shape_count_small)
  have d': "dim0 < length ?s'" "dim1 < length ?s'" using d by (simp_all add: length_swap)
  have ss: "swap ?s' dim0 dim1 = ?s" using d by (simp add: swap_swap)
  define res1 where
    "res1 = transposeGeneric dim0 dim1 (m_data t) (computeStrides ?s) (computeStrides ?s') ?n
              (replicate ?n None)"
  define t1 where
    "t1 = \<lparr>m_dType = m_dType t, m_data = res1, m_size = ?n, m_shape = ?s',
           m_strides = computeStrides ?s', m_device = m_device t\<rparr>"
  define res2 where
    "res2 = transposeGeneric dim0 dim1 res1 (computeStrides ?s') (computeStrides ?s) ?n
              (replicate ?n None)"
  have l1: "length res1 = ?n" by (simp add: res1_def length_transposeGeneric)
  have l2: "length res2 = ?n" by (simp add: res2_def length_transposeGeneric)
  have e1: "transpose_tv t dim0 dim1 = Inr t1"
    using d by (simp add: transpose_tv_def TensorValue_shape_def Let_def c' st t1_def res1_def)
  have w1: "well_formed t1"
    by (simp add: well_formed_def t1_def p' l1)
  have e2: "transpose_tv t1 dim0 dim1
              = Inr \<lparr>m_dType = m_dType t, m_data = res2, m_size = ?n, m_shape = ?s,
                     m_strides = computeStrides ?s, m_device = m_device t\<rparr>"
    using d' by (simp add: transpose_tv_def TensorValue_shape_def Let_def t1_def ss c res2_def)
  have "res2 = m_data t"
  proof (cases "?n = 0")
    case True
    then show ?thesis using l2 ln by simp
  next
    case False
    then have nz: "0 \<notin> set ?s" by (simp add: prod_list_zero_iff)
    have "set ?s' = set ?s" using d by (simp add: swap_def set_swap)
    with nz have nz': "0 \<notin> set ?s'" by simp
    have big: "(2::nat) ^ 31 < 2 ^ 64" by simp
    from small big have lt: "?n < 2 ^ 64" by (rule less_trans)
    have cs: "computeStrides ?s = strides_nat ?s"
      using nz lt by (rule computeStrides_nat)
    have cs': "computeStrides ?s' = strides_nat ?s'"
      using nz' lt p' by (intro computeStrides_nat) simp_all
    show ?thesis
    proof (rule nth_equalityI)
      show "length res2 = length (m_data t)" by (simp add: l2 ln)
    next
      fix k assume "k < length res2"
      then have k: "k < ?n" by (simp add: l2)
      let ?j = "flattenIndex (swap (unflattenIndex k (strides_nat ?s)) dim0 dim1)
                  (strides_nat ?s')"
      have j: "?j < ?n" using transposed_index_bound[OF d k] .
      have inv: "flattenIndex (swap (unflattenIndex ?j (strides_nat ?s')) dim0 dim1)
                    (strides_nat ?s) = k"
        using transposed_index_inverse[OF d k] ss by simp
      have "res2 ! k = rd res1 ?j"
        using transposeGeneric_nth[of dim0 ?s' dim1 ?n "replicate ?n None" ?j res1] d' p' j ss inv
        by (simp add: res2_def cs cs')
      also have "\<dots> = res1 ! ?j" using j l1 by (simp add: rd_def)
      also have "\<dots> = rd (m_data t) k"
        using transposeGeneric_nth[of dim0 ?s dim1 ?n "replicate ?n None" k "m_data t"] d k
        by (simp add: res1_def cs cs')
      also have "\<dots> = m_data t ! k" using k ln by (simp add: rd_def)
      finally show "res2 ! k = m_data t ! k" .
    qed
  qed
  with e2 sz st have "transpose_tv t1 dim0 dim1 = Inr t" by simp
  with e1 w1 show ?thesis by (auto simp: t1_def)
qed

text \<open>
  C6. \<^verbatim>\<open>TensorValue::transpose\<close> makes its result with the constructor
  \<^verbatim>\<open>TensorValue(Shape, Device*, DataType)\<close>, which counts the elements of the shape in a
  32-bit \<^verbatim>\<open>int\<close>. The tensor \<open>zeros_2e31\<close> of shape \<open>[2147483648]\<close> satisfies the invariant
  of the data model; the count computed for its shape is \<open>-2^31\<close>, stored as the
  \<^verbatim>\<open>size_t\<close> \<open>2^64 - 2^31\<close>. Its transpose with the dimensions 0 and 0, and the transpose of
  that, have this element count: transposing twice does not return the tensor. On the tensor
  of shape \<open>[3,2]\<close>, as on every tensor of less than \<open>2^31\<close> elements (lemma
  \<open>transpose_twice_below_int_max\<close>), transposing twice returns the tensor.
\<close>

theorem transpose_twice_count_wraps:
  "well_formed zeros_2e31 \<and>
   m_size zeros_2e31 = 2147483648 \<and>
   shape_count (m_shape zeros_2e31) = 18446744071562067968 \<and>
   \<not> isl (transpose_tv zeros_2e31 0 0) \<and>
   m_size (projr (transpose_tv zeros_2e31 0 0)) = 18446744071562067968 \<and>
   \<not> isl (transpose_twice zeros_2e31 0 0) \<and>
   m_shape (projr (transpose_twice zeros_2e31 0 0)) = [2147483648] \<and>
   m_size (projr (transpose_twice zeros_2e31 0 0)) = 18446744071562067968 \<and>
   transpose_twice zeros_2e31 0 0 \<noteq> Inr zeros_2e31 \<and>
   well_formed (value leaf_3x2 0) \<and>
   transpose_twice (value leaf_3x2 0) 0 1 = Inr (value leaf_3x2 0)"
proof -
  have w: "well_formed zeros_2e31"
    by (simp add: well_formed_def zeros_2e31_def)
  have c: "shape_count [2147483648] = 18446744071562067968"
    by (simp add: count_defs)
  have t1: "transpose_tv zeros_2e31 0 0
              = Inr \<lparr>m_dType = kFloat32,
                     m_data = transposeGeneric 0 0 (m_data zeros_2e31) (m_strides zeros_2e31)
                                (computeStrides [2147483648]) 18446744071562067968
                                (replicate 18446744071562067968 None),
                     m_size = 18446744071562067968, m_shape = [2147483648],
                     m_strides = computeStrides [2147483648], m_device = 0\<rparr>"
    by (simp add: transpose_tv_def zeros_2e31_def TensorValue_shape_def swap_def Let_def c)
  have t2: "\<not> isl (transpose_twice zeros_2e31 0 0) \<and>
            m_shape (projr (transpose_twice zeros_2e31 0 0)) = [2147483648] \<and>
            m_size (projr (transpose_twice zeros_2e31 0 0)) = 18446744071562067968"
    by (simp add: transpose_twice_def transpose_tv_def zeros_2e31_def TensorValue_shape_def
          swap_def Let_def c)
  have ne: "transpose_twice zeros_2e31 0 0 \<noteq> Inr zeros_2e31"
  proof
    assume "transpose_twice zeros_2e31 0 0 = Inr zeros_2e31"
    then have "m_size (projr (transpose_twice zeros_2e31 0 0)) = m_size zeros_2e31" by simp
    with t2 show False by (simp add: zeros_2e31_def)
  qed
  have w3: "well_formed (value leaf_3x2 0)"
    by (simp add: well_formed_def leaf_3x2_def eval_simps)
  have s3: "m_size (value leaf_3x2 0) < 2 ^ 31"
    and d3: "0 < length (m_shape (value leaf_3x2 0))" "1 < length (m_shape (value leaf_3x2 0))"
    by (simp_all add: leaf_3x2_def eval_simps)
  from transpose_twice_below_int_max[OF w3 s3 d3]
  have r3: "transpose_twice (value leaf_3x2 0) 0 1 = Inr (value leaf_3x2 0)"
    by (auto simp: transpose_twice_def)
  show ?thesis
    using w c t1 t2 ne w3 r3 by (simp add: zeros_2e31_def)
qed

subsection \<open>The data type F64 on the Metal backend\<close>

















subsection \<open>Batches of command buffers\<close>

lemmas batch_defs = commandBuffer_def commandBuffer_commit_def waitUntilCompleted_def
  dispatchThreads_def commit_trace_def commit_def synchronize_def synchronize_trace_def
  commitBatchQueue_def commitBatchQueue_trace_def

lemma batch_invariant_new: "batch_invariant M DeviceMetal_new"
  by (simp add: batch_invariant_def DeviceMetal_new_def)

lemma batch_invariant_commit:
  assumes "in_flight s \<subseteq> set_option (m_committedCmdBuffer s)"
    "\<forall>b \<in> set_option (m_committedCmdBuffer s). b < m_cmdBuffer s"
    "m_cmdBuffer s < created s" "m_currentBatchSize s = 0 \<longrightarrow> batch_invariant M s"
  shows "batch_invariant M (commit s)"
  using assms
  by (cases "m_committedCmdBuffer s")
     (auto simp: batch_invariant_def batch_defs Let_def)

lemma batch_invariant_step:
  assumes "batch_invariant M s" "step M s e = Inr s'"
  shows "batch_invariant M s'"
proof (cases e)
  case EvDispatch
  let ?s1 = "(dispatchThreads s)\<lparr>m_currentBatchSize := m_currentBatchSize (dispatchThreads s) + 1\<rparr>"
  show ?thesis
  proof (cases "m_currentBatchSize ?s1 \<ge> M")
    case True
    have "batch_invariant M (commit ?s1)"
      using assms(1)
      by (intro batch_invariant_commit) (auto simp: batch_invariant_def dispatchThreads_def)
    then show ?thesis using assms(2) EvDispatch True by (simp add: commitBatchQueue_def Let_def)
  next
    case False
    then show ?thesis using assms EvDispatch
      by (auto simp: commitBatchQueue_def Let_def batch_invariant_def dispatchThreads_def)
  qed
next
  case EvCommit
  have "batch_invariant M (commit s)"
    using assms(1) by (intro batch_invariant_commit) (auto simp: batch_invariant_def)
  then show ?thesis using assms(2) EvCommit by simp
next
  case EvSynchronize
  have c: "batch_invariant M (commit s)"
    using assms(1) by (intro batch_invariant_commit) (auto simp: batch_invariant_def)
  obtain b where b: "m_committedCmdBuffer (commit s) = Some b" "s' = waitUntilCompleted b (commit s)"
    using assms(2) EvSynchronize by (auto simp: synchronize_def Let_def split: option.splits)
  show ?thesis using c b by (auto simp: batch_invariant_def waitUntilCompleted_def)
next
  case (EvCompleted b)
  then show ?thesis using assms by (auto simp: batch_invariant_def)
qed

lemma batch_invariant_exec_from:
  "batch_invariant M s \<Longrightarrow> exec_from M es s = Inr s' \<Longrightarrow> batch_invariant M s'"
proof (induction es arbitrary: s)
  case Nil
  then show ?case by simp
next
  case (Cons e es)
  then show ?case by (auto split: sum.splits dest: batch_invariant_step)
qed

lemma batch_invariant_exec: "exec M es = Inr s \<Longrightarrow> batch_invariant M s"
  unfolding exec_def using batch_invariant_new batch_invariant_exec_from by blast

lemma commit_resets: "m_currentBatchSize (commit s) = 0"
  by (simp add: batch_defs Let_def)

text \<open>At most one element: a set with at most one element is finite and has at most one.\<close>

lemma card_le_one: "A \<subseteq> {b} \<Longrightarrow> finite A \<and> card A \<le> 1"
proof -
  assume sub: "A \<subseteq> {b}"
  then have "finite A" by (rule finite_subset) simp
  moreover have "card A \<le> card {b}" using sub by (intro card_mono) simp_all
  ultimately show ?thesis by simp
qed

lemma in_flight_card:
  assumes "in_flight s \<subseteq> set_option (m_committedCmdBuffer s)"
  shows "finite (in_flight s) \<and> card (in_flight s) \<le> 1"
proof (cases "m_committedCmdBuffer s")
  case None
  then show ?thesis using assms by simp
next
  case (Some b)
  then have "in_flight s \<subseteq> {b}" using assms by simp
  then show ?thesis by (rule card_le_one)
qed

text \<open>The states inside a commit: nothing is in flight after the wait, then the committed buffer.\<close>

lemma commit_trace_in_flight:
  assumes "in_flight s \<subseteq> set_option (m_committedCmdBuffer s)"
  shows "\<forall>s' \<in> set (commit_trace s). in_flight s' \<subseteq> {m_cmdBuffer s}"
  using assms
  by (cases "m_committedCmdBuffer s") (auto simp: batch_defs Let_def)

lemma commit_trace_order:
  assumes "in_flight s \<subseteq> set_option (m_committedCmdBuffer s)" and "0 < m_currentBatchSize s"
  shows "length (commit_trace s) = 6 \<and>
         in_flight (commit_trace s ! 0) = {} \<and>
         in_flight (commit_trace s ! 1) = {m_cmdBuffer s} \<and>
         m_committedCmdBuffer (commit_trace s ! 1) = m_committedCmdBuffer s \<and>
         m_committedCmdBuffer (commit_trace s ! 2) = Some (m_cmdBuffer s)"
  using assms
  by (cases "m_committedCmdBuffer s") (auto simp: batch_defs Let_def)

lemma commit_trace_card:
  assumes "in_flight s \<subseteq> set_option (m_committedCmdBuffer s)"
  shows "\<forall>s' \<in> set (commit_trace s). finite (in_flight s') \<and> card (in_flight s') \<le> 1"
proof
  fix s' assume "s' \<in> set (commit_trace s)"
  with commit_trace_in_flight[OF assms] have "in_flight s' \<subseteq> {m_cmdBuffer s}" by (rule bspec)
  then show "finite (in_flight s') \<and> card (in_flight s') \<le> 1" by (rule card_le_one)
qed

lemma step_trace_in_flight:
  assumes "batch_invariant M s"
  shows "\<forall>s' \<in> set (step_trace M s e). finite (in_flight s') \<and> card (in_flight s') \<le> 1"
proof (cases e)
  case EvDispatch
  let ?d = "dispatchThreads s"
  let ?s1 = "?d\<lparr>m_currentBatchSize := m_currentBatchSize ?d + 1\<rparr>"
  have sub: "in_flight s \<subseteq> set_option (m_committedCmdBuffer s)"
    using assms by (simp add: batch_invariant_def)
  have d: "finite (in_flight ?d) \<and> card (in_flight ?d) \<le> 1"
    using in_flight_card[OF sub] by (simp add: dispatchThreads_def)
  have s1: "finite (in_flight ?s1) \<and> card (in_flight ?s1) \<le> 1"
    using in_flight_card[OF sub] by (simp add: dispatchThreads_def)
  have "in_flight ?s1 \<subseteq> set_option (m_committedCmdBuffer ?s1)"
    using sub by (simp add: dispatchThreads_def)
  from commit_trace_card[OF this]
  have c: "\<forall>s' \<in> set (commit_trace ?s1). finite (in_flight s') \<and> card (in_flight s') \<le> 1" .
  have "set (step_trace M s e) \<subseteq> {?d, ?s1} \<union> set (commit_trace ?s1)"
    using EvDispatch by (auto simp: commitBatchQueue_trace_def Let_def)
  then show ?thesis using d s1 c by blast
next
  case EvCommit
  have sub: "in_flight s \<subseteq> set_option (m_committedCmdBuffer s)"
    using assms by (simp add: batch_invariant_def)
  from commit_trace_card[OF this] show ?thesis using EvCommit by simp
next
  case EvSynchronize
  have sub: "in_flight s \<subseteq> set_option (m_committedCmdBuffer s)"
    using assms by (simp add: batch_invariant_def)
  from commit_trace_card[OF this]
  have c: "\<forall>s' \<in> set (commit_trace s). finite (in_flight s') \<and> card (in_flight s') \<le> 1" .
  have "batch_invariant M (commit s)"
    using assms by (intro batch_invariant_commit) (auto simp: batch_invariant_def)
  then have cs: "in_flight (commit s) \<subseteq> set_option (m_committedCmdBuffer (commit s))"
    by (simp add: batch_invariant_def)
  show ?thesis
  proof (cases "m_committedCmdBuffer (commit s)")
    case None
    then have "step_trace M s e = commit_trace s"
      using EvSynchronize by (simp add: synchronize_trace_def Let_def)
    then show ?thesis using c by simp
  next
    case (Some b)
    let ?w = "waitUntilCompleted b (commit s)"
    have "in_flight ?w \<subseteq> {b}" using cs Some by (auto simp: waitUntilCompleted_def)
    then have w: "finite (in_flight ?w) \<and> card (in_flight ?w) \<le> 1" by (rule card_le_one)
    have "set (step_trace M s e) = set (commit_trace s) \<union> {?w}"
      using EvSynchronize Some by (simp add: synchronize_trace_def Let_def)
    then show ?thesis using c w by blast
  qed
next
  case (EvCompleted b)
  have sub: "in_flight s \<subseteq> set_option (m_committedCmdBuffer s)"
    using assms by (simp add: batch_invariant_def)
  have "in_flight (s\<lparr>in_flight := in_flight s - {b}\<rparr>)
          \<subseteq> set_option (m_committedCmdBuffer (s\<lparr>in_flight := in_flight s - {b}\<rparr>))"
    using sub by auto
  from in_flight_card[OF this] show ?thesis using EvCompleted by simp
qed

lemma trace_from_in_flight:
  "batch_invariant M s \<Longrightarrow>
   \<forall>s' \<in> set (trace_from M es s). finite (in_flight s') \<and> card (in_flight s') \<le> 1"
proof (induction es arbitrary: s)
  case Nil
  then show ?case by simp
next
  case (Cons e es)
  note here = step_trace_in_flight[OF Cons.prems, of e]
  show ?case
  proof (cases "step M s e")
    case (Inl err)
    then show ?thesis using here by simp
  next
    case (Inr s')
    from batch_invariant_step[OF Cons.prems Inr] have "batch_invariant M s'" .
    from Cons.IH[OF this] show ?thesis using here Inr by auto
  qed
qed

lemma trace_in_flight:
  "\<forall>s \<in> set (trace M es). finite (in_flight s) \<and> card (in_flight s) \<le> 1"
proof -
  have "finite (in_flight DeviceMetal_new) \<and> card (in_flight DeviceMetal_new) \<le> 1"
    by (simp add: DeviceMetal_new_def)
  then show ?thesis
    using trace_from_in_flight[OF batch_invariant_new, of M es] by (simp add: trace_def)
qed

text \<open>The state after an event is the last state of its trace.\<close>

lemma step_last: "step M s e = Inr s' \<Longrightarrow> s' = last (s # step_trace M s e)"
  by (cases e)
     (auto simp: commitBatchQueue_def commitBatchQueue_trace_def commit_def synchronize_def
        synchronize_trace_def Let_def split: option.splits)

lemma exec_from_last:
  "exec_from M es s = Inr s' \<Longrightarrow> s' = last (s # trace_from M es s)"
proof (induction es arbitrary: s)
  case Nil
  then show ?case by simp
next
  case (Cons e es)
  from Cons.prems obtain s1 where s1: "step M s e = Inr s1" "exec_from M es s1 = Inr s'"
    by (auto split: sum.splits)
  from Cons.IH[OF s1(2)] have l: "s' = last (s1 # trace_from M es s1)" .
  from step_last[OF s1(1)] have l1: "s1 = last (s # step_trace M s e)" .
  show ?case
  proof (cases "trace_from M es s1 = []")
    case True
    then show ?thesis using l l1 s1 by simp
  next
    case False
    then show ?thesis using l s1 by simp
  qed
qed

lemma commitBatchQueue_counter:
  "m_currentBatchSize (commitBatchQueue M (dispatchThreads s))
     = (if M \<le> Suc (m_currentBatchSize s) then 0 else Suc (m_currentBatchSize s))"
  by (simp add: batch_defs Let_def)

lemma commitBatchQueue_committed:
  "m_committedCmdBuffer (commitBatchQueue M (dispatchThreads s))
     = (if M \<le> Suc (m_currentBatchSize s) then Some (m_cmdBuffer s) else m_committedCmdBuffer s)"
  by (cases "m_committedCmdBuffer s") (simp_all add: batch_defs Let_def)

text \<open>
  C9. From the state the constructor leaves, through any sequence of dispatches, commits,
  synchronisations and completions: in every state the device passes through, between two
  calls and inside a call, at most one command buffer is in flight. In a state \<open>s\<close> between
  two calls, reached without failure: the buffer in flight is the committed one, not the
  one being encoded; the counter is the number of dispatches encoded in the current command
  buffer and is below \<^verbatim>\<open>MAX_CMD_BATCH_SIZE\<close>; a dispatch adds one to the counter and
  commits the current command buffer exactly when the counter reaches
  \<^verbatim>\<open>MAX_CMD_BATCH_SIZE\<close>; a commit leaves the counter at zero; a commit that finds
  dispatches first waits, after which nothing is in flight, and then commits the current
  command buffer, which is then the only one in flight and becomes the committed one.
\<close>

theorem one_buffer_in_flight:
  "(\<forall>s' \<in> set (trace MAX_CMD_BATCH_SIZE es). finite (in_flight s') \<and> card (in_flight s') \<le> 1) \<and>
   (exec MAX_CMD_BATCH_SIZE es = Inr s \<longrightarrow>
      s = last (trace MAX_CMD_BATCH_SIZE es) \<and>
      in_flight s \<subseteq> set_option (m_committedCmdBuffer s) \<and>
      m_cmdBuffer s \<notin> in_flight s \<and>
      m_currentBatchSize s = encoded s \<and>
      (0 < MAX_CMD_BATCH_SIZE \<longrightarrow> m_currentBatchSize s < MAX_CMD_BATCH_SIZE) \<and>
      m_currentBatchSize (commitBatchQueue MAX_CMD_BATCH_SIZE (dispatchThreads s))
        = (if MAX_CMD_BATCH_SIZE \<le> Suc (m_currentBatchSize s) then 0
           else Suc (m_currentBatchSize s)) \<and>
      m_committedCmdBuffer (commitBatchQueue MAX_CMD_BATCH_SIZE (dispatchThreads s))
        = (if MAX_CMD_BATCH_SIZE \<le> Suc (m_currentBatchSize s) then Some (m_cmdBuffer s)
           else m_committedCmdBuffer s) \<and>
      m_currentBatchSize (commit s) = 0 \<and>
      (0 < m_currentBatchSize s \<longrightarrow>
         in_flight (commit_trace s ! 0) = {} \<and>
         in_flight (commit_trace s ! 1) = {m_cmdBuffer s} \<and>
         m_committedCmdBuffer (commit_trace s ! 2) = Some (m_cmdBuffer s) \<and>
         in_flight (commit s) = {m_cmdBuffer s} \<and>
         m_committedCmdBuffer (commit s) = Some (m_cmdBuffer s)) \<and>
      (MAX_CMD_BATCH_SIZE \<le> Suc (m_currentBatchSize s) \<longrightarrow>
         in_flight (step_trace MAX_CMD_BATCH_SIZE s EvDispatch ! 2) = {} \<and>
         in_flight (step_trace MAX_CMD_BATCH_SIZE s EvDispatch ! 3) = {m_cmdBuffer s}))"
proof -
  have a: "\<forall>s' \<in> set (trace MAX_CMD_BATCH_SIZE es).
             finite (in_flight s') \<and> card (in_flight s') \<le> 1"
    by (rule trace_in_flight)
  have b: ?thesis if e: "exec MAX_CMD_BATCH_SIZE es = Inr s"
  proof -
    have inv: "batch_invariant MAX_CMD_BATCH_SIZE s"
      using e by (rule batch_invariant_exec)
    then have sub: "in_flight s \<subseteq> set_option (m_committedCmdBuffer s)"
      by (simp add: batch_invariant_def)
    have l: "s = last (trace MAX_CMD_BATCH_SIZE es)"
      using exec_from_last[of MAX_CMD_BATCH_SIZE es DeviceMetal_new s] e
      by (simp add: exec_def trace_def)
    have cur: "m_cmdBuffer s \<notin> in_flight s"
      using inv by (auto simp: batch_invariant_def)
    have cnt: "m_currentBatchSize s = encoded s"
      and bound: "0 < MAX_CMD_BATCH_SIZE \<longrightarrow> m_currentBatchSize s < MAX_CMD_BATCH_SIZE"
      using inv by (auto simp: batch_invariant_def)
    have after: "0 < m_currentBatchSize s \<longrightarrow>
         in_flight (commit_trace s ! 0) = {} \<and>
         in_flight (commit_trace s ! 1) = {m_cmdBuffer s} \<and>
         m_committedCmdBuffer (commit_trace s ! 2) = Some (m_cmdBuffer s) \<and>
         in_flight (commit s) = {m_cmdBuffer s} \<and>
         m_committedCmdBuffer (commit s) = Some (m_cmdBuffer s)"
      using sub by (cases "m_committedCmdBuffer s") (auto simp: batch_defs Let_def)
    have disp: "MAX_CMD_BATCH_SIZE \<le> Suc (m_currentBatchSize s) \<longrightarrow>
         in_flight (step_trace MAX_CMD_BATCH_SIZE s EvDispatch ! 2) = {} \<and>
         in_flight (step_trace MAX_CMD_BATCH_SIZE s EvDispatch ! 3) = {m_cmdBuffer s}"
      using sub by (cases "m_committedCmdBuffer s") (auto simp: batch_defs Let_def)
    from a l sub cur cnt bound commit_resets[of s] after disp
      commitBatchQueue_counter[of MAX_CMD_BATCH_SIZE s]
      commitBatchQueue_committed[of MAX_CMD_BATCH_SIZE s]
    show ?thesis by blast
  qed
  show ?thesis
  proof (cases "exec MAX_CMD_BATCH_SIZE es = Inr s")
    case True
    then show ?thesis by (rule b)
  next
    case False
    then show ?thesis using a by simp
  qed
qed

theorem one_buffer_in_flight_witness:
  "exec 1 [EvDispatch, EvDispatch]
     = Inr \<lparr>m_currentBatchSize = 0, m_maxBatchSize = 1, m_cmdBuffer = 2,
            m_committedCmdBuffer = Some 1, created = 3, encoded = 0, in_flight = {1}\<rparr> \<and>
   \<lparr>m_currentBatchSize = 1, m_maxBatchSize = 1, m_cmdBuffer = 1,
     m_committedCmdBuffer = Some 0, created = 2, encoded = 1, in_flight = {}\<rparr>
     \<in> set (trace 1 [EvDispatch, EvDispatch]) \<and>
   \<lparr>m_currentBatchSize = 1, m_maxBatchSize = 1, m_cmdBuffer = 1,
     m_committedCmdBuffer = Some 0, created = 2, encoded = 1, in_flight = {1}\<rparr>
     \<in> set (trace 1 [EvDispatch, EvDispatch]) \<and>
   card {1::nat} \<le> 1 \<and>
   last (trace 1 [EvDispatch, EvDispatch])
     = \<lparr>m_currentBatchSize = 0, m_maxBatchSize = 1, m_cmdBuffer = 2,
        m_committedCmdBuffer = Some 1, created = 3, encoded = 0, in_flight = {1}\<rparr>"
proof -
  let ?F = "\<lparr>m_currentBatchSize = 0, m_maxBatchSize = 1, m_cmdBuffer = 2,
            m_committedCmdBuffer = Some 1, created = 3, encoded = 0, in_flight = {1}\<rparr>"
  let ?S = "\<lparr>m_currentBatchSize = 1, m_maxBatchSize = 1, m_cmdBuffer = 1,
     m_committedCmdBuffer = Some 0, created = 2, encoded = 1, in_flight = {1}\<rparr>"
  have e: "exec 1 [EvDispatch, EvDispatch] = Inr ?F"
    by (simp add: exec_def DeviceMetal_new_def batch_defs Let_def)
  have w: "\<lparr>m_currentBatchSize = 1, m_maxBatchSize = 1, m_cmdBuffer = 1,
     m_committedCmdBuffer = Some 0, created = 2, encoded = 1, in_flight = {}\<rparr>
     \<in> set (trace 1 [EvDispatch, EvDispatch])"
    by (simp add: trace_def DeviceMetal_new_def batch_defs Let_def)
  have m: "?S \<in> set (trace 1 [EvDispatch, EvDispatch])"
    by (simp add: trace_def DeviceMetal_new_def batch_defs Let_def)
  from one_buffer_in_flight[of 1 "[EvDispatch, EvDispatch]" ?F] e w m
  show ?thesis by fastforce
qed

end
